theory Spec2Isabelle
  imports Complex_Main
begin

section \<open>Errors\<close>

text \<open>
  The library throws plain \<^verbatim>\<open>Error\<close> objects that differ only in their message. Each
  message of the embedded methods is one constructor here; a method of the model returns
  the thrown error (if any) next to the state as it is at the moment of the throw, so a
  mutation that precedes a throw stays visible.
\<close>

datatype error =
    OutputClosed int            \<comment> \<open>GPIOOutput on pin N has been closed\<close>
  | InputClosed int             \<comment> \<open>GPIOInput on pin N has been closed\<close>
  | ChannelClosed int           \<comment> \<open>PWMChannel on channel N has been closed\<close>
  | SoftwarePWMClosed           \<comment> \<open>SoftwarePWM has been closed\<close>
  | GPIOControllerClosed        \<comment> \<open>GPIO controller has been closed\<close>
  | PWMControllerClosed         \<comment> \<open>PWM controller has been closed\<close>
  | DutyCycleOutOfRange         \<comment> \<open>Duty cycle must be between 0 and 1\<close>
  | FrequencyNotPositive        \<comment> \<open>Frequency must be greater than 0\<close>
  | EdgeDetectionDisabled       \<comment> \<open>Edge detection is not enabled for this input\<close>
  | WaitFailed                  \<comment> \<open>Error waiting for edge events\<close>
  | ReadFailed int              \<comment> \<open>Failed to read GPIO pin N\<close>
  | SettingsFailed              \<comment> \<open>Failed to create line settings\<close>
  | LineConfigFailed            \<comment> \<open>Failed to create line config\<close>
  | RequestConfigFailed         \<comment> \<open>Failed to create request config\<close>
  | RequestOutputFailed int     \<comment> \<open>Failed to request GPIO pin N as output\<close>
  | RequestInputFailed int      \<comment> \<open>Failed to request GPIO pin N as input\<close>
  | ChannelInUse int            \<comment> \<open>PWM channel N is already in use\<close>
  | ExportFailed int            \<comment> \<open>Failed to export PWM channel N: ...\<close>
  | ExportTimeout int           \<comment> \<open>Failed to create PWM channel N (timeout)\<close>
  | PermissionDenied int        \<comment> \<open>Permission denied: Cannot write to .../pwmN/period\<close>
  | WriteError                  \<comment> \<open>the system error of a failed fs.writeFileSync\<close>
  | BigIntRangeError            \<comment> \<open>RangeError of BigInt(x) on a number that is not an integer\<close>

section \<open>The libgpiod call history\<close>

text \<open>
  Every call through the FFI binding is appended to a history. What the library answers is
  not in the repository: it is taken as a parameter (see \<open>Libgpiod\<close> below) that may look
  at the whole history.
\<close>

datatype ffi_call =
    SettingsNew
  | SettingsSetDirection int
  | SettingsSetOutputValue int
  | SettingsSetBias int
  | SettingsSetEdgeDetection int
  | SettingsSetActiveLow bool
  | SettingsSetDebouncePeriodUs int
  | SettingsFree
  | LineConfigNew
  | LineConfigAddLineSettings int
  | LineConfigFree
  | RequestConfigNew
  | RequestConfigSetConsumer string
  | RequestConfigFree
  | ChipRequestLines
  | RequestRelease nat
  | RequestSetValue nat int int
  | RequestGetValue nat int
  | WaitEdgeEvents nat int
  | ReadEdgeEvents nat nat
  | EdgeEventBufferNew nat
  | EdgeEventBufferFree nat

definition GPIOD_LINE_VALUE_INACTIVE :: int where "GPIOD_LINE_VALUE_INACTIVE = 0"
definition GPIOD_LINE_VALUE_ACTIVE :: int where "GPIOD_LINE_VALUE_ACTIVE = 1"
definition GPIOD_LINE_DIRECTION_INPUT :: int where "GPIOD_LINE_DIRECTION_INPUT = 2"
definition GPIOD_LINE_DIRECTION_OUTPUT :: int where "GPIOD_LINE_DIRECTION_OUTPUT = 3"
definition GPIOD_EDGE_EVENT_TYPE_RISING_EDGE :: int where "GPIOD_EDGE_EVENT_TYPE_RISING_EDGE = 1"

section \<open>Numbers\<close>

text \<open>
  A number of the source is an IEEE 754 binary64 value. The model keeps numbers as real
  numbers and takes the rounding of the arithmetic as a parameter \<open>fl\<close>: every sum,
  difference, product and quotient of the source is the exact result followed by \<open>fl\<close>.
  \<^verbatim>\<open>Math.round\<close>, \<^verbatim>\<open>Math.floor\<close> and the comparisons are exact on binary64 values.

  \<open>binary64\<close> is that rounding for the binary64 format: to the nearest value with a
  significand of 53 bits, a tie going to the even significand, with the fixed spacing of
  the subnormal range below \<open>2 ^ -1022\<close>. NaN and the overflow to infinity are not
  represented. \<open>exponent_of\<close> finds the binary exponent of a positive number by halving or
  doubling, at most as often as its first argument says.
\<close>

definition round_half_even :: "real \<Rightarrow> int" where
  "round_half_even y =
     (let n = \<lfloor>y\<rfloor>; r = y - of_int n
      in if r < 1 / 2 then n else if r > 1 / 2 then n + 1 else if even n then n else n + 1)"

fun exponent_of :: "nat \<Rightarrow> real \<Rightarrow> int" where
  "exponent_of 0 a = 0"
| "exponent_of (Suc fuel) a =
     (if a \<ge> 2 then exponent_of fuel (a / 2) + 1
      else if a < 1 then exponent_of fuel (a * 2) - 1
      else 0)"

definition binary64 :: "real \<Rightarrow> real" where
  "binary64 x =
     (if x = 0 then 0
      else
        (let e = max (exponent_of 1100 \<bar>x\<bar>) (- 1022);
             q = e - 52
         in if q \<ge> 0 then of_int (round_half_even (x / 2 ^ nat q)) * 2 ^ nat q
            else of_int (round_half_even (x * 2 ^ nat (- q))) / 2 ^ nat (- q)))"

text \<open>\<^verbatim>\<open>Math.round\<close>: the nearest integer, a tie going up.\<close>

definition Math_round :: "real \<Rightarrow> int" where
  "Math_round x = \<lfloor>x + 1 / 2\<rfloor>"

section \<open>GPIOOutput (gpio.ts)\<close>

record GPIOOutput =
  o_request :: nat
  o_pin :: int
  o_state :: bool
  o_closed :: bool

definition output_checkClosed :: "GPIOOutput \<Rightarrow> error option" where
  "output_checkClosed out = (if o_closed out then Some (OutputClosed (o_pin out)) else None)"

definition output_on :: "GPIOOutput \<Rightarrow> ffi_call list \<Rightarrow> error option \<times> GPIOOutput \<times> ffi_call list" where
  "output_on out h =
     (case output_checkClosed out of
        Some e \<Rightarrow> (Some e, out, h)
      | None \<Rightarrow>
          (None, out\<lparr>o_state := True\<rparr>,
           h @ [RequestSetValue (o_request out) (o_pin out) GPIOD_LINE_VALUE_ACTIVE]))"

definition output_off :: "GPIOOutput \<Rightarrow> ffi_call list \<Rightarrow> error option \<times> GPIOOutput \<times> ffi_call list" where
  "output_off out h =
     (case output_checkClosed out of
        Some e \<Rightarrow> (Some e, out, h)
      | None \<Rightarrow>
          (None, out\<lparr>o_state := False\<rparr>,
           h @ [RequestSetValue (o_request out) (o_pin out) GPIOD_LINE_VALUE_INACTIVE]))"

definition output_toggle :: "GPIOOutput \<Rightarrow> ffi_call list \<Rightarrow> error option \<times> GPIOOutput \<times> ffi_call list" where
  "output_toggle out h =
     (case output_checkClosed out of
        Some e \<Rightarrow> (Some e, out, h)
      | None \<Rightarrow> (if o_state out then output_off out h else output_on out h))"

definition output_write :: "bool \<Rightarrow> GPIOOutput \<Rightarrow> ffi_call list \<Rightarrow> error option \<times> GPIOOutput \<times> ffi_call list" where
  "output_write v out h =
     (case output_checkClosed out of
        Some e \<Rightarrow> (Some e, out, h)
      | None \<Rightarrow> (if v then output_on out h else output_off out h))"

definition output_close :: "GPIOOutput \<Rightarrow> ffi_call list \<Rightarrow> GPIOOutput \<times> ffi_call list" where
  "output_close out h =
     (if \<not> o_closed out
      then (out\<lparr>o_closed := True\<rparr>, h @ [RequestRelease (o_request out)])
      else (out, h))"

section \<open>SoftwarePWM (software-pwm.ts)\<close>

text \<open>
  The \<^verbatim>\<open>output\<close> field is a reference to a GPIOOutput that the caller also holds, so
  the output object lives beside the SoftwarePWM fields in \<open>soft_env\<close>, together with the
  FFI history. \<open>timer\<close> is True while the interval is set.
\<close>

record SoftwarePWM =
  sp_dutyCycle :: real
  sp_frequencyHz :: real
  sp_closed :: bool
  timer :: bool
  cycleStartNs :: real
  lastState :: bool

record soft_env =
  sp :: SoftwarePWM
  out :: GPIOOutput
  hw :: "ffi_call list"

definition sp_checkClosed :: "SoftwarePWM \<Rightarrow> error option" where
  "sp_checkClosed p = (if sp_closed p then Some SoftwarePWMClosed else None)"

definition sp_setDutyCycle :: "real \<Rightarrow> soft_env \<Rightarrow> error option \<times> soft_env" where
  "sp_setDutyCycle ratio s =
     (case sp_checkClosed (sp s) of
        Some e \<Rightarrow> (Some e, s)
      | None \<Rightarrow>
          if ratio < 0 \<or> ratio > 1 then (Some DutyCycleOutOfRange, s)
          else (None, s\<lparr>sp := (sp s)\<lparr>sp_dutyCycle := ratio\<rparr>\<rparr>))"

definition sp_setFrequency :: "real \<Rightarrow> soft_env \<Rightarrow> error option \<times> soft_env" where
  "sp_setFrequency frequencyHz s =
     (case sp_checkClosed (sp s) of
        Some e \<Rightarrow> (Some e, s)
      | None \<Rightarrow>
          if frequencyHz \<le> 0 then (Some FrequencyNotPositive, s)
          else (None, s\<lparr>sp := (sp s)\<lparr>sp_frequencyHz := frequencyHz\<rparr>\<rparr>))"

text \<open>\<^verbatim>\<open>this.output.write(v); this.lastState = v;\<close> as it occurs three times in \<^verbatim>\<open>tick\<close>.\<close>

definition emit :: "bool \<Rightarrow> soft_env \<Rightarrow> error option \<times> soft_env" where
  "emit v s =
     (case output_write v (out s) (hw s) of
        (Some e, out', h') \<Rightarrow> (Some e, s\<lparr>out := out', hw := h'\<rparr>)
      | (None, out', h') \<Rightarrow>
          (None, s\<lparr>sp := (sp s)\<lparr>lastState := v\<rparr>, out := out', hw := h'\<rparr>))"

text \<open>
  The phase computation of \<^verbatim>\<open>tick\<close> (lines 125 to 141), on the fields it reads: the
  period, the anchor after the wrap-around, the elapsed time after it, and the level.
  Each arithmetic operation is rounded by \<open>fl\<close>.
\<close>

definition periodNs_of :: "(real \<Rightarrow> real) \<Rightarrow> SoftwarePWM \<Rightarrow> real" where
  "periodNs_of fl p = fl (1000000000 / sp_frequencyHz p)"

definition tick_anchor :: "(real \<Rightarrow> real) \<Rightarrow> real \<Rightarrow> SoftwarePWM \<Rightarrow> real" where
  "tick_anchor fl now p =
     (let periodNs = periodNs_of fl p;
          elapsedNs = fl (now - cycleStartNs p)
      in if elapsedNs \<ge> periodNs
         then (let completedCycles = \<lfloor>fl (elapsedNs / periodNs)\<rfloor>
               in fl (cycleStartNs p + fl (of_int completedCycles * periodNs)))
         else cycleStartNs p)"

definition tick_elapsed :: "(real \<Rightarrow> real) \<Rightarrow> real \<Rightarrow> SoftwarePWM \<Rightarrow> real" where
  "tick_elapsed fl now p =
     (let periodNs = periodNs_of fl p;
          elapsedNs = fl (now - cycleStartNs p)
      in if elapsedNs \<ge> periodNs then fl (now - tick_anchor fl now p) else elapsedNs)"

definition shouldBeHigh :: "(real \<Rightarrow> real) \<Rightarrow> real \<Rightarrow> SoftwarePWM \<Rightarrow> bool" where
  "shouldBeHigh fl now p =
     (let positionInCycle = fl (tick_elapsed fl now p / periodNs_of fl p)
      in positionInCycle < sp_dutyCycle p)"

definition tick :: "(real \<Rightarrow> real) \<Rightarrow> real \<Rightarrow> soft_env \<Rightarrow> error option \<times> soft_env" where
  "tick fl now s =
     (if sp_closed (sp s) then (None, s)
      else if sp_dutyCycle (sp s) \<le> 0 then
        (if lastState (sp s) \<noteq> False then emit False s else (None, s))
      else if sp_dutyCycle (sp s) \<ge> 1 then
        (if lastState (sp s) \<noteq> True then emit True s else (None, s))
      else
        (let high = shouldBeHigh fl now (sp s);
             s1 = s\<lparr>sp := (sp s)\<lparr>cycleStartNs := tick_anchor fl now (sp s)\<rparr>\<rparr>
         in if high \<noteq> lastState (sp s) then emit high s1 else (None, s1)))"

text \<open>
  The interval callback run at the given clock readings, one after the other. An error
  thrown by one run does not stop the interval in this model.
\<close>

fun ticks :: "(real \<Rightarrow> real) \<Rightarrow> real list \<Rightarrow> soft_env \<Rightarrow> soft_env" where
  "ticks fl [] s = s"
| "ticks fl (now # nows) s = ticks fl nows (snd (tick fl now s))"

definition sp_close :: "soft_env \<Rightarrow> error option \<times> soft_env" where
  "sp_close s =
     (if \<not> sp_closed (sp s) then
        (let s1 = s\<lparr>sp := (sp s)\<lparr>sp_closed := True\<rparr>\<rparr>;
             s2 = (if timer (sp s1) then s1\<lparr>sp := (sp s1)\<lparr>timer := False\<rparr>\<rparr> else s1)
         in emit False s2)
      else (None, s))"

section \<open>Hardware PWM (pwm.ts)\<close>

text \<open>
  The sysfs files of one PWM chip. A path of the source is the chip path followed by the
  file's name; the model names the file and, for a channel's files, the channel number.
  The text written is always the decimal rendering of a number, and the model keeps the
  number.
\<close>

datatype sysfs_path =
    ExportFile
  | UnexportFile
  | ChannelDir int
  | PeriodFile int
  | DutyCycleFile int
  | EnableFile int

text \<open>
  What happened on the file system so far: every attempted write with its outcome, and
  every synchronous sleep. The kernel and the device manager are not part of the
  repository; their answers are a parameter that may depend on this history.
\<close>

datatype fs_event = FsWrite sysfs_path int bool | FsSleep nat

record Sysfs =
  write_ok :: "fs_event list \<Rightarrow> sysfs_path \<Rightarrow> int \<Rightarrow> bool"
  path_exists :: "fs_event list \<Rightarrow> sysfs_path \<Rightarrow> bool"
  path_writable :: "fs_event list \<Rightarrow> sysfs_path \<Rightarrow> bool"

text \<open>\<^verbatim>\<open>fs.writeFileSync\<close>: returns whether the write went through (False: it throws).\<close>

definition fsWriteFileSync :: "Sysfs \<Rightarrow> sysfs_path \<Rightarrow> int \<Rightarrow> fs_event list \<Rightarrow> bool \<times> fs_event list" where
  "fsWriteFileSync k p v h = (let ok = write_ok k h p v in (ok, h @ [FsWrite p v ok]))"

definition existsSync :: "Sysfs \<Rightarrow> sysfs_path \<Rightarrow> fs_event list \<Rightarrow> bool" where
  "existsSync k p h = path_exists k h p"

definition accessSync_W_OK :: "Sysfs \<Rightarrow> sysfs_path \<Rightarrow> fs_event list \<Rightarrow> bool" where
  "accessSync_W_OK k p h = path_writable k h p"

definition sleepSync :: "nat \<Rightarrow> fs_event list \<Rightarrow> fs_event list" where
  "sleepSync ms h = h @ [FsSleep ms]"

record PWMChannel =
  c_channel :: int
  c_periodNs :: int
  c_dutyCycle :: real
  c_closed :: bool

definition chan_checkClosed :: "PWMChannel \<Rightarrow> error option" where
  "chan_checkClosed c = (if c_closed c then Some (ChannelClosed (c_channel c)) else None)"

definition chan_setDutyCycle ::
  "(real \<Rightarrow> real) \<Rightarrow> Sysfs \<Rightarrow> real \<Rightarrow> PWMChannel \<Rightarrow> fs_event list
     \<Rightarrow> error option \<times> PWMChannel \<times> fs_event list" where
  "chan_setDutyCycle fl k ratio c h =
     (case chan_checkClosed c of
        Some e \<Rightarrow> (Some e, c, h)
      | None \<Rightarrow>
          if ratio < 0 \<or> ratio > 1 then (Some DutyCycleOutOfRange, c, h)
          else
            (let dutyCycleNs = Math_round (fl (of_int (c_periodNs c) * ratio));
                 (ok, h1) = fsWriteFileSync k (DutyCycleFile (c_channel c)) dutyCycleNs h
             in if \<not> ok then (Some WriteError, c, h1)
                else (None, c\<lparr>c_dutyCycle := ratio\<rparr>, h1)))"

definition chan_setFrequency ::
  "(real \<Rightarrow> real) \<Rightarrow> Sysfs \<Rightarrow> real \<Rightarrow> PWMChannel \<Rightarrow> fs_event list
     \<Rightarrow> error option \<times> PWMChannel \<times> fs_event list" where
  "chan_setFrequency fl k frequencyHz c h =
     (case chan_checkClosed c of
        Some e \<Rightarrow> (Some e, c, h)
      | None \<Rightarrow>
          if frequencyHz \<le> 0 then (Some FrequencyNotPositive, c, h)
          else
            (let periodNs = Math_round (fl (1000000000 / frequencyHz));
                 (ok1, h1) = fsWriteFileSync k (PeriodFile (c_channel c)) periodNs h
             in if \<not> ok1 then (Some WriteError, c, h1)
                else
                  (let dutyCycleNs = Math_round (fl (of_int periodNs * c_dutyCycle c));
                       (ok2, h2) = fsWriteFileSync k (DutyCycleFile (c_channel c)) dutyCycleNs h1
                   in if \<not> ok2 then (Some WriteError, c, h2)
                      else (None, c\<lparr>c_periodNs := periodNs\<rparr>, h2))))"

text \<open>
  \<^verbatim>\<open>PWMChannel.close\<close> in its two statements: the write of \<^verbatim>\<open>enable\<close>, whose error is
  swallowed by the \<^verbatim>\<open>try\<close>, and then the assignment of \<^verbatim>\<open>_closed\<close>.
\<close>

definition chan_disable :: "Sysfs \<Rightarrow> PWMChannel \<times> fs_event list \<Rightarrow> PWMChannel \<times> fs_event list" where
  "chan_disable k = (\<lambda>(c, h). (c, snd (fsWriteFileSync k (EnableFile (c_channel c)) 0 h)))"

definition chan_mark_closed :: "PWMChannel \<times> fs_event list \<Rightarrow> PWMChannel \<times> fs_event list" where
  "chan_mark_closed = (\<lambda>(c, h). (c\<lparr>c_closed := True\<rparr>, h))"

definition chan_close :: "Sysfs \<Rightarrow> PWMChannel \<times> fs_event list \<Rightarrow> PWMChannel \<times> fs_event list" where
  "chan_close k s = (if \<not> c_closed (fst s) then chan_mark_closed (chan_disable k s) else s)"

text \<open>
  The controller. \<open>channels\<close> is the \<^verbatim>\<open>Map\<close> from channel number to handle; only its keys
  are consulted by \<^verbatim>\<open>channel\<close>, and the value stored is the handle as created.
\<close>

record PWM =
  channels :: "int \<rightharpoonup> PWMChannel"
  p_closed :: bool

record PWMChannelOptions =
  frequencyHz :: "real option"
  dutyCycle :: "real option"

definition pwm_checkClosed :: "PWM \<Rightarrow> error option" where
  "pwm_checkClosed p = (if p_closed p then Some PWMControllerClosed else None)"

text \<open>The first polling loop of \<^verbatim>\<open>channel\<close>: at most \<open>retries\<close> sleeps of 10 ms.\<close>

fun wait_for_dir :: "Sysfs \<Rightarrow> int \<Rightarrow> nat \<Rightarrow> fs_event list \<Rightarrow> fs_event list" where
  "wait_for_dir k channel 0 h = h"
| "wait_for_dir k channel (Suc retries) h =
     (if \<not> existsSync k (ChannelDir channel) h
      then wait_for_dir k channel retries (sleepSync 10 h)
      else h)"

text \<open>
  The second polling loop: leaves with \<^verbatim>\<open>break\<close> when the period file is writable, else
  sleeps 20 ms and counts down. Returns the value of \<^verbatim>\<open>permRetries\<close> after the loop.
\<close>

fun wait_for_perm :: "Sysfs \<Rightarrow> int \<Rightarrow> nat \<Rightarrow> fs_event list \<Rightarrow> nat \<times> fs_event list" where
  "wait_for_perm k channel 0 h = (0, h)"
| "wait_for_perm k channel (Suc permRetries) h =
     (if accessSync_W_OK k (PeriodFile channel) h then (Suc permRetries, h)
      else wait_for_perm k channel permRetries (sleepSync 20 h))"

text \<open>
  \<^verbatim>\<open>channel\<close> from the permission wait on (lines 406 to 446): the wait, the three
  configuration writes in their order, then the tracking of the handle.
\<close>

definition channel_configure ::
  "(real \<Rightarrow> real) \<Rightarrow> Sysfs \<Rightarrow> int \<Rightarrow> int \<Rightarrow> real \<Rightarrow> PWM \<Rightarrow> fs_event list
     \<Rightarrow> (error + PWMChannel) \<times> PWM \<times> fs_event list" where
  "channel_configure fl k channel periodNs duty p h =
     (let (permRetries, h1) = wait_for_perm k channel 50 h
      in if permRetries = 0 then (Inl (PermissionDenied channel), p, h1)
         else
           (let pwmChannel = \<lparr>c_channel = channel, c_periodNs = periodNs,
                               c_dutyCycle = duty, c_closed = False\<rparr>;
                (ok1, h2) = fsWriteFileSync k (PeriodFile channel) periodNs h1
            in if \<not> ok1 then (Inl WriteError, p, h2)
               else
                 (let dutyCycleNs = Math_round (fl (of_int periodNs * duty));
                      (ok2, h3) = fsWriteFileSync k (DutyCycleFile channel) dutyCycleNs h2
                  in if \<not> ok2 then (Inl WriteError, p, h3)
                     else
                       (let (ok3, h4) = fsWriteFileSync k (EnableFile channel) 1 h3
                        in if \<not> ok3 then (Inl WriteError, p, h4)
                           else (Inr pwmChannel,
                                 p\<lparr>channels := (channels p)(channel \<mapsto> pwmChannel)\<rparr>, h4)))))"

definition pwm_channel ::
  "(real \<Rightarrow> real) \<Rightarrow> Sysfs \<Rightarrow> int \<Rightarrow> PWMChannelOptions \<Rightarrow> PWM \<Rightarrow> fs_event list
     \<Rightarrow> (error + PWMChannel) \<times> PWM \<times> fs_event list" where
  "pwm_channel fl k channel options p h =
     (case pwm_checkClosed p of
        Some e \<Rightarrow> (Inl e, p, h)
      | None \<Rightarrow>
          if channels p channel \<noteq> None then (Inl (ChannelInUse channel), p, h)
          else
            (let freq = (case frequencyHz options of None \<Rightarrow> 1000 | Some f \<Rightarrow> f);
                 duty = (case dutyCycle options of None \<Rightarrow> 1 / 2 | Some d \<Rightarrow> d)
             in if freq \<le> 0 then (Inl FrequencyNotPositive, p, h)
                else if duty < 0 \<or> duty > 1 then (Inl DutyCycleOutOfRange, p, h)
                else
                  (let periodNs = Math_round (fl (1000000000 / freq));
                       (ok, h1) = fsWriteFileSync k ExportFile channel h
                   in if \<not> ok then
                        (if existsSync k (ChannelDir channel) h1
                         then channel_configure fl k channel periodNs duty p h1
                         else (Inl (ExportFailed channel), p, h1))
                      else
                        (let h2 = wait_for_dir k channel 10 h1
                         in if \<not> existsSync k (ChannelDir channel) h2
                            then (Inl (ExportTimeout channel), p,
                                  snd (fsWriteFileSync k UnexportFile channel h2))
                            else channel_configure fl k channel periodNs duty p h2))))"

section \<open>The libgpiod binding as a parameter\<close>

text \<open>
  The answers of the native library. Each function sees the call history up to, and not
  including, its own call. A pointer result is \<open>Some\<close> address or \<open>None\<close> for null; for
  the three configuration objects only null or not matters.
\<close>

record raw_event =
  re_event_type :: int
  re_timestamp_ns :: int
  re_line_offset :: int
  re_line_seqno :: int

record Libgpiod =
  gpiod_line_settings_new :: "ffi_call list \<Rightarrow> bool"
  gpiod_line_config_new :: "ffi_call list \<Rightarrow> bool"
  gpiod_request_config_new :: "ffi_call list \<Rightarrow> bool"
  gpiod_chip_request_lines :: "ffi_call list \<Rightarrow> nat option"
  gpiod_line_request_get_value :: "ffi_call list \<Rightarrow> nat \<Rightarrow> int \<Rightarrow> int"
  gpiod_line_request_wait_edge_events :: "ffi_call list \<Rightarrow> nat \<Rightarrow> int \<Rightarrow> int"
  gpiod_line_request_read_edge_events :: "ffi_call list \<Rightarrow> nat \<Rightarrow> nat \<Rightarrow> int"
  gpiod_edge_event_buffer_get_event :: "ffi_call list \<Rightarrow> nat \<Rightarrow> raw_event"
  gpiod_edge_event_buffer_new :: "ffi_call list \<Rightarrow> nat \<Rightarrow> nat option"

section \<open>GPIOInput (gpio.ts)\<close>

datatype EdgeSetting = EdgeNone | EdgeRising | EdgeFalling | EdgeBoth

datatype edge_type = Rising | Falling

record EdgeEvent =
  ev_type :: edge_type
  timestampNs :: int
  ev_pin :: int
  sequence :: int

text \<open>
  A callback is a function object, compared by identity in \<^verbatim>\<open>indexOf\<close>: the model keeps
  an identifier for it. What a callback does when it is called is a parameter of the
  dispatch (see \<open>behaviour\<close> below). \<open>pollInterval\<close> is True while the interval is set.
\<close>

record GPIOInput =
  i_request :: nat
  i_pin :: int
  i_edge :: EdgeSetting
  i_closed :: bool
  eventBuffer :: "nat option"
  edgeCallbacks :: "nat list"
  pollInterval :: bool

text \<open>
  The input handle with what its methods act on: the FFI history, the calls received by
  the callbacks in order (callback, event), and the lines printed by \<^verbatim>\<open>console.error\<close>.
\<close>

record input_env =
  inp :: GPIOInput
  ihw :: "ffi_call list"
  delivered :: "(nat \<times> EdgeEvent) list"
  console_errors :: "(nat \<times> EdgeEvent) list"

definition input_checkClosed :: "GPIOInput \<Rightarrow> error option" where
  "input_checkClosed i = (if i_closed i then Some (InputClosed (i_pin i)) else None)"

definition input_read :: "Libgpiod \<Rightarrow> input_env \<Rightarrow> (error + bool) \<times> input_env" where
  "input_read lib s =
     (case input_checkClosed (inp s) of
        Some e \<Rightarrow> (Inl e, s)
      | None \<Rightarrow>
          (let v = gpiod_line_request_get_value lib (ihw s) (i_request (inp s)) (i_pin (inp s));
               s1 = s\<lparr>ihw := ihw s @ [RequestGetValue (i_request (inp s)) (i_pin (inp s))]\<rparr>
           in if v < 0 then (Inl (ReadFailed (i_pin (inp s))), s1)
              else (Inr (v = GPIOD_LINE_VALUE_ACTIVE), s1)))"

definition stopPolling :: "input_env \<Rightarrow> input_env" where
  "stopPolling s = (if pollInterval (inp s) then s\<lparr>inp := (inp s)\<lparr>pollInterval := False\<rparr>\<rparr> else s)"

definition startPolling :: "input_env \<Rightarrow> input_env" where
  "startPolling s = s\<lparr>inp := (inp s)\<lparr>pollInterval := True\<rparr>\<rparr>"

definition onEdge :: "nat \<Rightarrow> input_env \<Rightarrow> error option \<times> input_env" where
  "onEdge callback s =
     (case input_checkClosed (inp s) of
        Some e \<Rightarrow> (Some e, s)
      | None \<Rightarrow>
          if i_edge (inp s) = EdgeNone then (Some EdgeDetectionDisabled, s)
          else
            (let s1 = s\<lparr>inp := (inp s)\<lparr>edgeCallbacks := edgeCallbacks (inp s) @ [callback]\<rparr>\<rparr>
             in (None, if \<not> pollInterval (inp s1) then startPolling s1 else s1)))"

text \<open>
  \<^verbatim>\<open>indexOf\<close> and \<^verbatim>\<open>splice(index, 1)\<close> remove the first occurrence, which is \<open>remove1\<close>;
  when the callback is absent the list stays as it is.
\<close>

definition offEdge :: "nat \<Rightarrow> input_env \<Rightarrow> error option \<times> input_env" where
  "offEdge callback s =
     (let s1 = s\<lparr>inp := (inp s)\<lparr>edgeCallbacks := remove1 callback (edgeCallbacks (inp s))\<rparr>\<rparr>
      in (None, if edgeCallbacks (inp s1) = [] \<and> pollInterval (inp s1) then stopPolling s1 else s1))"

definition readEventFromBuffer :: "Libgpiod \<Rightarrow> ffi_call list \<Rightarrow> nat \<Rightarrow> EdgeEvent" where
  "readEventFromBuffer lib h index =
     (let event = gpiod_edge_event_buffer_get_event lib h index
      in \<lparr>ev_type = (if re_event_type event = GPIOD_EDGE_EVENT_TYPE_RISING_EDGE then Rising else Falling),
          timestampNs = re_timestamp_ns event,
          ev_pin = re_line_offset event,
          sequence = re_line_seqno event\<rparr>)"

text \<open>
  \<^verbatim>\<open>BigInt(timeoutMs) * 1_000_000n\<close>, or \<^verbatim>\<open>-1n\<close> when the argument is absent. \<^verbatim>\<open>BigInt\<close>
  of a number that is not an integer throws a RangeError.
\<close>

definition timeoutNs_of :: "real option \<Rightarrow> error + int" where
  "timeoutNs_of timeoutMs =
     (case timeoutMs of
        None \<Rightarrow> Inr (- 1)
      | Some t \<Rightarrow> if of_int \<lfloor>t\<rfloor> = t then Inr (\<lfloor>t\<rfloor> * 1000000) else Inl BigIntRangeError)"

definition waitForEdge :: "Libgpiod \<Rightarrow> real option \<Rightarrow> input_env \<Rightarrow> (error + EdgeEvent option) \<times> input_env" where
  "waitForEdge lib timeoutMs s =
     (case input_checkClosed (inp s) of
        Some e \<Rightarrow> (Inl e, s)
      | None \<Rightarrow>
          if i_edge (inp s) = EdgeNone then (Inl EdgeDetectionDisabled, s)
          else
            (case timeoutNs_of timeoutMs of
               Inl e \<Rightarrow> (Inl e, s)
             | Inr timeoutNs \<Rightarrow>
                 (let result = gpiod_line_request_wait_edge_events lib (ihw s) (i_request (inp s)) timeoutNs;
                      s1 = s\<lparr>ihw := ihw s @ [WaitEdgeEvents (i_request (inp s)) timeoutNs]\<rparr>
                  in if result < 0 then (Inl WaitFailed, s1)
                     else if result = 0 then (Inr None, s1)
                     else
                       (let count = gpiod_line_request_read_edge_events lib (ihw s1) (i_request (inp s)) 1;
                            s2 = s1\<lparr>ihw := ihw s1 @ [ReadEdgeEvents (i_request (inp s)) 1]\<rparr>
                        in if count < 1 then (Inr None, s2)
                           else (Inr (Some (readEventFromBuffer lib (ihw s2) 0)), s2)))))"

text \<open>
  The async generator \<^verbatim>\<open>edges\<close>. Its body runs at the first \<^verbatim>\<open>next()\<close>; the loop waits
  100 ms at a time and may never yield, so the model counts the waits it is allowed.
\<close>

datatype 'a gen_step = Yield 'a | Done | OutOfFuel

fun edges_loop :: "Libgpiod \<Rightarrow> nat \<Rightarrow> input_env \<Rightarrow> (error + EdgeEvent gen_step) \<times> input_env" where
  "edges_loop lib 0 s = (if i_closed (inp s) then (Inr Done, s) else (Inr OutOfFuel, s))"
| "edges_loop lib (Suc fuel) s =
     (if i_closed (inp s) then (Inr Done, s)
      else
        (case waitForEdge lib (Some 100) s of
           (Inl e, s1) \<Rightarrow> (Inl e, s1)
         | (Inr (Some event), s1) \<Rightarrow> (Inr (Yield event), s1)
         | (Inr None, s1) \<Rightarrow> edges_loop lib fuel s1))"

definition edges :: "Libgpiod \<Rightarrow> nat \<Rightarrow> input_env \<Rightarrow> (error + EdgeEvent gen_step) \<times> input_env" where
  "edges lib fuel s =
     (case input_checkClosed (inp s) of
        Some e \<Rightarrow> (Inl e, s)
      | None \<Rightarrow>
          if i_edge (inp s) = EdgeNone then (Inl EdgeDetectionDisabled, s)
          else edges_loop lib fuel s)"

definition input_close :: "input_env \<Rightarrow> input_env" where
  "input_close s =
     (if \<not> i_closed (inp s) then
        (let s1 = stopPolling s;
             s2 = (case eventBuffer (inp s1) of
                     Some b \<Rightarrow> s1\<lparr>inp := (inp s1)\<lparr>eventBuffer := None\<rparr>,
                                   ihw := ihw s1 @ [EdgeEventBufferFree b]\<rparr>
                   | None \<Rightarrow> s1);
             s3 = s2\<lparr>ihw := ihw s2 @ [RequestRelease (i_request (inp s2))]\<rparr>
         in s3\<lparr>inp := (inp s3)\<lparr>i_closed := True, edgeCallbacks := []\<rparr>\<rparr>)
      else s)"

text \<open>
  What a callback does when it is called with an event: the calls it makes on this input
  handle, in order, and whether it throws at the end. The calls a callback of the model can
  make are \<^verbatim>\<open>onEdge\<close> and \<^verbatim>\<open>offEdge\<close>; neither calls the library. A call that throws
  inside the callback ends the callback with that error (\<open>handle_calls\<close> returns True).
\<close>

datatype handle_call = CallOnEdge nat | CallOffEdge nat

type_synonym behaviour = "nat \<Rightarrow> EdgeEvent \<Rightarrow> handle_call list \<times> bool"

fun handle_calls :: "handle_call list \<Rightarrow> input_env \<Rightarrow> bool \<times> input_env" where
  "handle_calls [] s = (False, s)"
| "handle_calls (CallOnEdge callback # rest) s =
     (case onEdge callback s of
        (Some e, s1) \<Rightarrow> (True, s1)
      | (None, s1) \<Rightarrow> handle_calls rest s1)"
| "handle_calls (CallOffEdge callback # rest) s =
     (case offEdge callback s of
        (Some e, s1) \<Rightarrow> (True, s1)
      | (None, s1) \<Rightarrow> handle_calls rest s1)"

text \<open>
  \<^verbatim>\<open>try { callback(event) } catch (err) { console.error(...) }\<close>: the call is recorded,
  the callback runs, and a throw is printed and goes no further.
\<close>

definition invoke :: "behaviour \<Rightarrow> nat \<Rightarrow> EdgeEvent \<Rightarrow> input_env \<Rightarrow> input_env" where
  "invoke does callback event s =
     (let s1 = s\<lparr>delivered := delivered s @ [(callback, event)]\<rparr>;
          (calls, throws) = does callback event;
          (threw, s2) = handle_calls calls s1
      in if threw \<or> throws
         then s2\<lparr>console_errors := console_errors s2 @ [(callback, event)]\<rparr>
         else s2)"

text \<open>
  The inner loop of the poll, \<^verbatim>\<open>for (const callback of this.edgeCallbacks)\<close>. The array
  iterator keeps an index into the array itself, not into a copy: at every step it
  compares the index with the length the array has then, and takes the element the array
  has at that index then. A callback that registers a callback at every call keeps the
  loop running for ever, so the model counts the steps it is allowed (None: none left).
\<close>

fun dispatch :: "nat \<Rightarrow> behaviour \<Rightarrow> EdgeEvent \<Rightarrow> nat \<Rightarrow> input_env \<Rightarrow> input_env option" where
  "dispatch 0 does event index s = None"
| "dispatch (Suc fuel) does event index s =
     (if index < length (edgeCallbacks (inp s))
      then dispatch fuel does event (Suc index)
             (invoke does (edgeCallbacks (inp s) ! index) event s)
      else Some s)"

text \<open>
  The outer loop: the events at the indices 0, 1, ... below \<open>count\<close>. The callbacks of
  the model make no library call, so the event at an index is the same whenever it is
  read, and the events are read before the loop.
\<close>

fun dispatch_all :: "nat \<Rightarrow> behaviour \<Rightarrow> EdgeEvent list \<Rightarrow> input_env \<Rightarrow> input_env option" where
  "dispatch_all fuel does [] s = Some s"
| "dispatch_all fuel does (event # events) s =
     (case dispatch fuel does event 0 s of
        None \<Rightarrow> None
      | Some s1 \<Rightarrow> dispatch_all fuel does events s1)"

text \<open>One run of the interval callback installed by \<^verbatim>\<open>startPolling\<close>.\<close>

definition poll :: "nat \<Rightarrow> Libgpiod \<Rightarrow> behaviour \<Rightarrow> input_env \<Rightarrow> input_env option" where
  "poll fuel lib does s =
     (if i_closed (inp s) \<or> edgeCallbacks (inp s) = [] then Some (stopPolling s)
      else
        (let result = gpiod_line_request_wait_edge_events lib (ihw s) (i_request (inp s)) 0;
             s1 = s\<lparr>ihw := ihw s @ [WaitEdgeEvents (i_request (inp s)) 0]\<rparr>
         in if result > 0 then
              (let count = gpiod_line_request_read_edge_events lib (ihw s1) (i_request (inp s)) 16;
                   s2 = s1\<lparr>ihw := ihw s1 @ [ReadEdgeEvents (i_request (inp s)) 16]\<rparr>
               in dispatch_all fuel does (map (readEventFromBuffer lib (ihw s2)) [0..<nat count]) s2)
            else Some s1))"

section \<open>The GPIO controller (gpio.ts)\<close>

datatype BiasSetting = BiasDisabled | BiasPullUp | BiasPullDown

fun biasToGpiod :: "BiasSetting \<Rightarrow> int" where
  "biasToGpiod BiasDisabled = 2"
| "biasToGpiod BiasPullUp = 3"
| "biasToGpiod BiasPullDown = 4"

fun edgeToGpiod :: "EdgeSetting \<Rightarrow> int" where
  "edgeToGpiod EdgeNone = 1"
| "edgeToGpiod EdgeRising = 2"
| "edgeToGpiod EdgeFalling = 3"
| "edgeToGpiod EdgeBoth = 4"

record GPIOOutputOptions =
  initialValue :: "bool option"
  out_activeLow :: "bool option"

record GPIOInputOptions =
  bias :: "BiasSetting option"
  edge :: "EdgeSetting option"
  in_activeLow :: "bool option"
  debounceMs :: "real option"

text \<open>
  \<open>outputs\<close> and \<open>inputs\<close> are the arrays the controller pushes every handle to; they are
  read by \<^verbatim>\<open>GPIO.close\<close> only, and nothing is ever removed from them.
\<close>

record GPIO =
  g_closed :: bool
  outputs :: "GPIOOutput list"
  inputs :: "GPIOInput list"

definition gpio_checkClosed :: "GPIO \<Rightarrow> error option" where
  "gpio_checkClosed g = (if g_closed g then Some GPIOControllerClosed else None)"

text \<open>\<^verbatim>\<open>new Uint32Array([pin])\<close> stores the pin modulo \<open>2 ^ 32\<close>.\<close>

definition to_uint32 :: "int \<Rightarrow> int" where
  "to_uint32 pin = pin mod 4294967296"

text \<open>
  The tail shared by \<^verbatim>\<open>output\<close> and \<^verbatim>\<open>input\<close> once the settings object is filled in
  (lines 607 to 644 and 691 to 728): line config, request config, the line request, and
  the release of the three configuration objects. Returns the request pointer, or the
  error thrown when a configuration object could not be created.
\<close>

definition request_line :: "Libgpiod \<Rightarrow> int \<Rightarrow> ffi_call list \<Rightarrow> (error + nat option) \<times> ffi_call list" where
  "request_line lib pin h =
     (let lineConfig = gpiod_line_config_new lib h;
          h1 = h @ [LineConfigNew]
      in if \<not> lineConfig then (Inl LineConfigFailed, h1 @ [SettingsFree])
         else
           (let h2 = h1 @ [LineConfigAddLineSettings (to_uint32 pin)];
                reqConfig = gpiod_request_config_new lib h2;
                h3 = h2 @ [RequestConfigNew]
            in if \<not> reqConfig then (Inl RequestConfigFailed, h3 @ [SettingsFree, LineConfigFree])
               else
                 (let h4 = h3 @ [RequestConfigSetConsumer ''bun-gpio''];
                      request = gpiod_chip_request_lines lib h4;
                      h5 = h4 @ [ChipRequestLines]
                  in (Inr request, h5 @ [SettingsFree, LineConfigFree, RequestConfigFree]))))"

definition gpio_output ::
  "Libgpiod \<Rightarrow> int \<Rightarrow> GPIOOutputOptions \<Rightarrow> GPIO \<Rightarrow> ffi_call list \<Rightarrow> (error + GPIOOutput) \<times> GPIO \<times> ffi_call list" where
  "gpio_output lib pin options g h =
     (case gpio_checkClosed g of
        Some e \<Rightarrow> (Inl e, g, h)
      | None \<Rightarrow>
          (let initial = (case initialValue options of None \<Rightarrow> False | Some v \<Rightarrow> v);
               activeLow = (case out_activeLow options of None \<Rightarrow> False | Some v \<Rightarrow> v);
               settings = gpiod_line_settings_new lib h;
               h1 = h @ [SettingsNew]
           in if \<not> settings then (Inl SettingsFailed, g, h1)
              else
                (let h2 = h1 @ [SettingsSetDirection GPIOD_LINE_DIRECTION_OUTPUT,
                                SettingsSetOutputValue
                                  (if initial then GPIOD_LINE_VALUE_ACTIVE else GPIOD_LINE_VALUE_INACTIVE),
                                SettingsSetActiveLow activeLow]
                 in case request_line lib pin h2 of
                      (Inl e, h3) \<Rightarrow> (Inl e, g, h3)
                    | (Inr None, h3) \<Rightarrow> (Inl (RequestOutputFailed pin), g, h3)
                    | (Inr (Some request), h3) \<Rightarrow>
                        (let output = \<lparr>o_request = request, o_pin = pin,
                                        o_state = initial, o_closed = False\<rparr>
                         in (Inr output, g\<lparr>outputs := outputs g @ [output]\<rparr>, h3)))))"

text \<open>
  The constructor of GPIOInput allocates the event buffer when edge detection is on.
\<close>

definition new_GPIOInput :: "Libgpiod \<Rightarrow> nat \<Rightarrow> int \<Rightarrow> EdgeSetting \<Rightarrow> ffi_call list \<Rightarrow> GPIOInput \<times> ffi_call list" where
  "new_GPIOInput lib request pin e h =
     (let i = \<lparr>i_request = request, i_pin = pin, i_edge = e, i_closed = False,
               eventBuffer = None, edgeCallbacks = [], pollInterval = False\<rparr>
      in if e \<noteq> EdgeNone
         then (i\<lparr>eventBuffer := gpiod_edge_event_buffer_new lib h 16\<rparr>, h @ [EdgeEventBufferNew 16])
         else (i, h))"

definition gpio_input ::
  "Libgpiod \<Rightarrow> int \<Rightarrow> GPIOInputOptions \<Rightarrow> GPIO \<Rightarrow> ffi_call list \<Rightarrow> (error + GPIOInput) \<times> GPIO \<times> ffi_call list" where
  "gpio_input lib pin options g h =
     (case gpio_checkClosed g of
        Some e \<Rightarrow> (Inl e, g, h)
      | None \<Rightarrow>
          (let b = (case bias options of None \<Rightarrow> BiasDisabled | Some v \<Rightarrow> v);
               e = (case edge options of None \<Rightarrow> EdgeNone | Some v \<Rightarrow> v);
               activeLow = (case in_activeLow options of None \<Rightarrow> False | Some v \<Rightarrow> v);
               debounce = (case debounceMs options of None \<Rightarrow> 0 | Some v \<Rightarrow> v);
               settings = gpiod_line_settings_new lib h;
               h1 = h @ [SettingsNew]
           in if \<not> settings then (Inl SettingsFailed, g, h1)
              else
                (let h2 = h1 @ [SettingsSetDirection GPIOD_LINE_DIRECTION_INPUT,
                                SettingsSetBias (biasToGpiod b),
                                SettingsSetEdgeDetection (edgeToGpiod e),
                                SettingsSetActiveLow activeLow]
                 in if debounce > 0 \<and> of_int \<lfloor>debounce * 1000\<rfloor> \<noteq> debounce * 1000
                    then (Inl BigIntRangeError, g, h2)
                    else
                      (let h3 = (if debounce > 0
                                 then h2 @ [SettingsSetDebouncePeriodUs \<lfloor>debounce * 1000\<rfloor>]
                                 else h2)
                       in case request_line lib pin h3 of
                            (Inl err, h4) \<Rightarrow> (Inl err, g, h4)
                          | (Inr None, h4) \<Rightarrow> (Inl (RequestInputFailed pin), g, h4)
                          | (Inr (Some request), h4) \<Rightarrow>
                              (let (input, h5) = new_GPIOInput lib request pin e h4
                               in (Inr input, g\<lparr>inputs := inputs g @ [input]\<rparr>, h5))))))"

section \<open>Two instances of the parameters\<close>

text \<open>
  A kernel that leases a line to one request at a time, replayed from the call history:
  the offset last put into a line config, the leases (request, offset) now held, and the
  next request address. A line request is refused while its offset is held.
\<close>

fun kernel_step :: "int \<times> (nat \<times> int) list \<times> nat \<Rightarrow> ffi_call \<Rightarrow> int \<times> (nat \<times> int) list \<times> nat" where
  "kernel_step (cur, held, fresh) (LineConfigAddLineSettings off) = (off, held, fresh)"
| "kernel_step (cur, held, fresh) ChipRequestLines =
     (if cur \<in> snd ` set held then (cur, held, fresh) else (cur, held @ [(fresh, cur)], Suc fresh))"
| "kernel_step (cur, held, fresh) (RequestRelease r) = (cur, filter (\<lambda>l. fst l \<noteq> r) held, fresh)"
| "kernel_step st _ = st"

definition kernel_state :: "ffi_call list \<Rightarrow> int \<times> (nat \<times> int) list \<times> nat" where
  "kernel_state h = foldl kernel_step (0, [], 1) h"

definition no_event :: raw_event where
  "no_event = \<lparr>re_event_type = 0, re_timestamp_ns = 0, re_line_offset = 0, re_line_seqno = 0\<rparr>"

definition exclusive_lib :: Libgpiod where
  "exclusive_lib =
     \<lparr>gpiod_line_settings_new = (\<lambda>h. True),
      gpiod_line_config_new = (\<lambda>h. True),
      gpiod_request_config_new = (\<lambda>h. True),
      gpiod_chip_request_lines =
        (\<lambda>h. case kernel_state h of (cur, held, fresh) \<Rightarrow>
                if cur \<in> snd ` set held then None else Some fresh),
      gpiod_line_request_get_value = (\<lambda>h r p. 0),
      gpiod_line_request_wait_edge_events = (\<lambda>h r t. 0),
      gpiod_line_request_read_edge_events = (\<lambda>h r n. 0),
      gpiod_edge_event_buffer_get_event = (\<lambda>h i. no_event),
      gpiod_edge_event_buffer_new = (\<lambda>h n. Some 1)\<rparr>"

text \<open>A library that grants every line request, each with a new address.\<close>

definition granting_lib :: Libgpiod where
  "granting_lib = exclusive_lib\<lparr>gpiod_chip_request_lines := (\<lambda>h. Some (Suc (length h)))\<rparr>"

section \<open>Observing a tick\<close>


section \<open>Observing a hardware channel\<close>

text \<open>
  What a sysfs file holds after a history: the value of the last write that went through
  (nothing else writes the files in this model).
\<close>

fun write_effect :: "(sysfs_path \<rightharpoonup> int) \<Rightarrow> fs_event \<Rightarrow> (sysfs_path \<rightharpoonup> int)" where
  "write_effect m (FsWrite p v ok) = (if ok then m(p \<mapsto> v) else m)"
| "write_effect m (FsSleep ms) = m"

definition file_contents :: "fs_event list \<Rightarrow> sysfs_path \<rightharpoonup> int" where
  "file_contents h = foldl write_effect Map.empty h"

text \<open>
  A sequence of mutator calls on one channel handle. Beside the handle and the history,
  the run carries the frequency of the last \<^verbatim>\<open>setFrequency\<close> that returned normally: the
  handle itself only stores the period derived from it.
\<close>

datatype chan_call = SetDutyCycle real | SetFrequency real

fun run_calls ::
  "(real \<Rightarrow> real) \<Rightarrow> Sysfs \<Rightarrow> chan_call list \<Rightarrow> PWMChannel \<times> fs_event list \<times> real
     \<Rightarrow> PWMChannel \<times> fs_event list \<times> real" where
  "run_calls fl k [] st = st"
| "run_calls fl k (SetDutyCycle ratio # calls) (c, h, f) =
     (case chan_setDutyCycle fl k ratio c h of (e, c', h') \<Rightarrow> run_calls fl k calls (c', h', f))"
| "run_calls fl k (SetFrequency x # calls) (c, h, f) =
     (case chan_setFrequency fl k x c h of
        (e, c', h') \<Rightarrow> run_calls fl k calls (c', h', if e = None then x else f))"

text \<open>
  The invariant of a hardware channel: the duty-cycle file holds the nearest integer (a
  tie going up) to the product, as the arithmetic \<open>fl\<close> gives it, of the handle's period
  and ratio, and the period is the nearest integer to the quotient of 1e9 and the
  frequency. It is written with \<open>round\<close> of the library, not with the \<open>Math_round\<close> that
  the methods call.
\<close>

definition pwm_inv :: "(real \<Rightarrow> real) \<Rightarrow> PWMChannel \<times> fs_event list \<times> real \<Rightarrow> bool" where
  "pwm_inv fl = (\<lambda>(c, h, f).
     file_contents h (DutyCycleFile (c_channel c))
       = Some (round (fl (of_int (c_periodNs c) * c_dutyCycle c)))
     \<and> c_periodNs c = round (fl (1000000000 / f)))"

section \<open>Observing the edge callbacks\<close>

text \<open>
  The events one run of the poll drains, read off the library's answers: none unless the
  non-blocking wait reports a pending event, else those at the indices below the count
  returned by the read of at most 16 events.
\<close>

definition drained :: "Libgpiod \<Rightarrow> input_env \<Rightarrow> EdgeEvent list" where
  "drained lib s =
     (let request = i_request (inp s);
          h1 = ihw s @ [WaitEdgeEvents request 0]
      in if gpiod_line_request_wait_edge_events lib (ihw s) request 0 > 0
         then map (readEventFromBuffer lib (h1 @ [ReadEdgeEvents request 16]))
                [0..<nat (gpiod_line_request_read_edge_events lib h1 request 16)]
         else [])"

text \<open>The events a callback was called with, in the order of the calls.\<close>

definition received :: "nat \<Rightarrow> (nat \<times> EdgeEvent) list \<Rightarrow> EdgeEvent list" where
  "received callback calls = map snd (filter (\<lambda>d. fst d = callback) calls)"

section \<open>Observing an acquisition of a GPIO line\<close>

text \<open>
  The library calls that \<^verbatim>\<open>output\<close> and \<^verbatim>\<open>input\<close> make before the line request when no
  allocation fails, and the three releases after it.
\<close>

definition output_config_calls :: "int \<Rightarrow> GPIOOutputOptions \<Rightarrow> ffi_call list" where
  "output_config_calls pin options =
     [SettingsNew,
      SettingsSetDirection GPIOD_LINE_DIRECTION_OUTPUT,
      SettingsSetOutputValue
        (if (case initialValue options of None \<Rightarrow> False | Some v \<Rightarrow> v)
         then GPIOD_LINE_VALUE_ACTIVE else GPIOD_LINE_VALUE_INACTIVE),
      SettingsSetActiveLow (case out_activeLow options of None \<Rightarrow> False | Some v \<Rightarrow> v),
      LineConfigNew,
      LineConfigAddLineSettings (to_uint32 pin),
      RequestConfigNew,
      RequestConfigSetConsumer ''bun-gpio'']"

definition input_config_calls :: "int \<Rightarrow> GPIOInputOptions \<Rightarrow> ffi_call list" where
  "input_config_calls pin options =
     [SettingsNew,
      SettingsSetDirection GPIOD_LINE_DIRECTION_INPUT,
      SettingsSetBias (biasToGpiod (case bias options of None \<Rightarrow> BiasDisabled | Some v \<Rightarrow> v)),
      SettingsSetEdgeDetection (edgeToGpiod (case edge options of None \<Rightarrow> EdgeNone | Some v \<Rightarrow> v)),
      SettingsSetActiveLow (case in_activeLow options of None \<Rightarrow> False | Some v \<Rightarrow> v)]
     @ (case debounceMs options of
          None \<Rightarrow> []
        | Some d \<Rightarrow> if d > 0 then [SettingsSetDebouncePeriodUs \<lfloor>d * 1000\<rfloor>] else [])
     @ [LineConfigNew,
        LineConfigAddLineSettings (to_uint32 pin),
        RequestConfigNew,
        RequestConfigSetConsumer ''bun-gpio'']"

definition config_release_calls :: "ffi_call list" where
  "config_release_calls = [SettingsFree, LineConfigFree, RequestConfigFree]"

text \<open>A library whose three allocations of configuration objects never return null.\<close>

definition allocates :: "Libgpiod \<Rightarrow> bool" where
  "allocates lib =
     (\<forall>h. gpiod_line_settings_new lib h \<and> gpiod_line_config_new lib h
          \<and> gpiod_request_config_new lib h)"

text \<open>A debounce period that \<^verbatim>\<open>BigInt(debounceMs * 1000)\<close> accepts, or none.\<close>

definition debounce_ok :: "GPIOInputOptions \<Rightarrow> bool" where
  "debounce_ok options =
     (case debounceMs options of
        None \<Rightarrow> True
      | Some d \<Rightarrow> d \<le> 0 \<or> of_int \<lfloor>d * 1000\<rfloor> = d * 1000)"

section \<open>Concrete states used to instantiate the theorems\<close>

definition led :: GPIOOutput where
  "led = \<lparr>o_request = 1, o_pin = 17, o_state = False, o_closed = False\<rparr>"

definition soft_demo :: soft_env where
  "soft_demo =
     \<lparr>sp = \<lparr>sp_dutyCycle = 1 / 2, sp_frequencyHz = 100, sp_closed = False, timer = True,
            cycleStartNs = 0, lastState = False\<rparr>,
      out = led, hw = []\<rparr>"

definition soft_off :: soft_env where
  "soft_off = soft_demo\<lparr>sp := (sp soft_demo)\<lparr>sp_dutyCycle := 0, lastState := True\<rparr>,
                        out := led\<lparr>o_state := True\<rparr>\<rparr>"



definition soft_full :: soft_env where
  "soft_full = soft_demo\<lparr>sp := (sp soft_demo)\<lparr>sp_dutyCycle := 1\<rparr>\<rparr>"

text \<open>A sysfs where every write goes through and every path exists and is writable.\<close>

definition plain_sysfs :: Sysfs where
  "plain_sysfs = \<lparr>write_ok = (\<lambda>h p v. True), path_exists = (\<lambda>h p. True),
                   path_writable = (\<lambda>h p. True)\<rparr>"

text \<open>
  A channel that was exported before: the write to \<^verbatim>\<open>export\<close> is refused, the channel
  directory is there. And a chip that refuses the export and has no such directory.
\<close>

definition busy_sysfs :: Sysfs where
  "busy_sysfs = plain_sysfs\<lparr>write_ok := (\<lambda>h p v. p \<noteq> ExportFile)\<rparr>"

definition absent_sysfs :: Sysfs where
  "absent_sysfs = busy_sysfs\<lparr>path_exists := (\<lambda>h p. False)\<rparr>"

definition pwm0 :: PWM where
  "pwm0 = \<lparr>channels = Map.empty, p_closed = False\<rparr>"

definition motor_options :: PWMChannelOptions where
  "motor_options = \<lparr>frequencyHz = Some 1000, dutyCycle = Some (1 / 2)\<rparr>"

definition motor :: PWMChannel where
  "motor = \<lparr>c_channel = 0, c_periodNs = 1000000, c_dutyCycle = 1 / 2, c_closed = False\<rparr>"

text \<open>The binary64 value that the literal 0.1234565 denotes, and three calls.\<close>

definition sample_ratio :: real where
  "sample_ratio = binary64 (1234565 / 10000000)"

definition motor_calls :: "chan_call list" where
  "motor_calls = [SetDutyCycle sample_ratio, SetDutyCycle (1 / 2), SetFrequency 3]"

definition motor_history :: "fs_event list" where
  "motor_history = [FsWrite ExportFile 0 True, FsWrite (PeriodFile 0) 1000000 True,
                    FsWrite (DutyCycleFile 0) 500000 True, FsWrite (EnableFile 0) 1 True]"

text \<open>A SoftwarePWM whose output was closed behind its back; closed handles; an input.\<close>

definition led_closed :: GPIOOutput where
  "led_closed = led\<lparr>o_closed := True\<rparr>"

definition soft_orphan :: soft_env where
  "soft_orphan = soft_demo\<lparr>out := led_closed\<rparr>"

definition soft_closed :: soft_env where
  "soft_closed = soft_demo\<lparr>sp := (sp soft_demo)\<lparr>sp_closed := True, timer := False\<rparr>\<rparr>"

definition motor_closed :: PWMChannel where
  "motor_closed = motor\<lparr>c_closed := True\<rparr>"

definition button :: input_env where
  "button =
     \<lparr>inp = \<lparr>i_request = 2, i_pin = 27, i_edge = EdgeBoth, i_closed = False,
             eventBuffer = Some 1, edgeCallbacks = [], pollInterval = False\<rparr>,
      ihw = [], delivered = [], console_errors = []\<rparr>"

definition button_closed :: input_env where
  "button_closed = input_close button"

text \<open>
  A library with edge events pending: the wait reports a pending event, a read returns up
  to three events, rising and falling in turn, numbered from 1.
\<close>

definition events_lib :: Libgpiod where
  "events_lib = exclusive_lib
     \<lparr>gpiod_line_request_wait_edge_events := (\<lambda>h r t. 1),
      gpiod_line_request_read_edge_events := (\<lambda>h r n. min 3 (int n)),
      gpiod_edge_event_buffer_get_event :=
        (\<lambda>h i. \<lparr>re_event_type = (if even i then 1 else 2), re_timestamp_ns = 1000 * (int i + 1),
                 re_line_offset = 27, re_line_seqno = int i + 1\<rparr>)\<rparr>"

definition edge_event :: "edge_type \<Rightarrow> int \<Rightarrow> EdgeEvent" where
  "edge_event t n = \<lparr>ev_type = t, timestampNs = 1000 * n, ev_pin = 27, sequence = n\<rparr>"

text \<open>
  The input with two callbacks registered, 1 and then 2. Two behaviours: callbacks that
  make no call on the handle, of which callback 1 always throws; and callback 1 as a
  one-shot listener, which removes itself when it is called.
\<close>

definition button_watched :: input_env where
  "button_watched = snd (onEdge 2 (snd (onEdge 1 button)))"

definition first_throws :: behaviour where
  "first_throws callback event = ([], callback = 1)"

definition one_shot :: behaviour where
  "one_shot callback event = (if callback = 1 then [CallOffEdge 1] else [], False)"

text \<open>
  A fresh controller, the default options, and the state after pin 17 has been acquired as
  an output once.
\<close>

definition gpio0 :: GPIO where
  "gpio0 = \<lparr>g_closed = False, outputs = [], inputs = []\<rparr>"

definition default_output :: GPIOOutputOptions where
  "default_output = \<lparr>initialValue = None, out_activeLow = None\<rparr>"

definition default_input :: GPIOInputOptions where
  "default_input = \<lparr>bias = None, edge = None, in_activeLow = None, debounceMs = None\<rparr>"

definition gpio_leased :: GPIO where
  "gpio_leased = gpio0\<lparr>outputs := [led]\<rparr>"

definition lease_history :: "ffi_call list" where
  "lease_history = output_config_calls 17 default_output @ [ChipRequestLines] @ config_release_calls"

section \<open>Evaluating the binary64 rounding\<close>

text \<open>
  The exponent search unfolds one step per numeral of fuel, so that the rounding of a
  rational literal is computed by rewriting.
\<close>

lemma exponent_of_numeral:
  "exponent_of (numeral n) a =
     (if a \<ge> 2 then exponent_of (pred_numeral n) (a / 2) + 1
      else if a < 1 then exponent_of (pred_numeral n) (a * 2) - 1
      else 0)"
  by (simp add: numeral_eq_Suc)

lemmas binary64_eval = binary64_def round_half_even_def exponent_of_numeral Let_def

section \<open>Software PWM: the tick\<close>

lemma emit_closed_output: "o_closed (out s) \<Longrightarrow> emit v s = (Some (OutputClosed (o_pin (out s))), s)"
  by (simp add: emit_def output_write_def output_checkClosed_def)

lemma emit_open_output:
  "\<not> o_closed (out s) \<Longrightarrow>
   emit v s =
     (None, s\<lparr>sp := (sp s)\<lparr>lastState := v\<rparr>,
              out := (out s)\<lparr>o_state := v\<rparr>,
              hw := hw s @ [RequestSetValue (o_request (out s)) (o_pin (out s))
                              (if v then GPIOD_LINE_VALUE_ACTIVE else GPIOD_LINE_VALUE_INACTIVE)]\<rparr>)"
  by (simp add: emit_def output_write_def output_checkClosed_def output_on_def output_off_def)


lemma ticks_boundary_idle:
  assumes "\<not> sp_closed (sp s)"
    and "(sp_dutyCycle (sp s) \<le> 0 \<and> (\<not> lastState (sp s) \<or> o_closed (out s)))
       \<or> (sp_dutyCycle (sp s) \<ge> 1 \<and> (lastState (sp s) \<or> o_closed (out s)))"
  shows "ticks fl nows s = s"
  using assms
proof (induction nows)
  case Nil
  then show ?case by simp
next
  case (Cons now nows)
  have "tick fl now s = (None, s) \<or> tick fl now s = (Some (OutputClosed (o_pin (out s))), s)"
    using Cons.prems by (auto simp: tick_def emit_closed_output)
  then have "snd (tick fl now s) = s" by auto
  with Cons show ?case by simp
qed

lemma ticks_low:
  assumes "\<not> sp_closed (sp s)" and "sp_dutyCycle (sp s) \<le> 0"
  shows "hw (ticks fl nows s) = hw s @
           (if lastState (sp s) \<and> \<not> o_closed (out s) \<and> nows \<noteq> []
            then [RequestSetValue (o_request (out s)) (o_pin (out s)) GPIOD_LINE_VALUE_INACTIVE] else [])
         \<and> cycleStartNs (sp (ticks fl nows s)) = cycleStartNs (sp s)"
proof (cases nows)
  case Nil
  then show ?thesis by simp
next
  case (Cons now rest)
  show ?thesis
  proof (cases "lastState (sp s) \<and> \<not> o_closed (out s)")
    case True
    let ?s1 = "snd (tick fl now s)"
    have t: "tick fl now s = emit False s" using assms True by (simp add: tick_def)
    have s1: "?s1 = s\<lparr>sp := (sp s)\<lparr>lastState := False\<rparr>,
              out := (out s)\<lparr>o_state := False\<rparr>,
              hw := hw s @ [RequestSetValue (o_request (out s)) (o_pin (out s)) GPIOD_LINE_VALUE_INACTIVE]\<rparr>"
      using True by (simp add: t emit_open_output)
    have "ticks fl rest ?s1 = ?s1"
      by (rule ticks_boundary_idle) (use assms in \<open>simp_all add: s1\<close>)
    then show ?thesis using Cons True by (simp add: s1)
  next
    case False
    have "ticks fl nows s = s"
      by (rule ticks_boundary_idle) (use assms False in auto)
    then show ?thesis using False by auto
  qed
qed

lemma ticks_high:
  assumes "\<not> sp_closed (sp s)" and "sp_dutyCycle (sp s) \<ge> 1"
  shows "hw (ticks fl nows s) = hw s @
           (if \<not> lastState (sp s) \<and> \<not> o_closed (out s) \<and> nows \<noteq> []
            then [RequestSetValue (o_request (out s)) (o_pin (out s)) GPIOD_LINE_VALUE_ACTIVE] else [])
         \<and> cycleStartNs (sp (ticks fl nows s)) = cycleStartNs (sp s)"
proof (cases nows)
  case Nil
  then show ?thesis by simp
next
  case (Cons now rest)
  show ?thesis
  proof (cases "\<not> lastState (sp s) \<and> \<not> o_closed (out s)")
    case True
    let ?s1 = "snd (tick fl now s)"
    have t: "tick fl now s = emit True s" using assms True by (simp add: tick_def)
    have s1: "?s1 = s\<lparr>sp := (sp s)\<lparr>lastState := True\<rparr>,
              out := (out s)\<lparr>o_state := True\<rparr>,
              hw := hw s @ [RequestSetValue (o_request (out s)) (o_pin (out s)) GPIOD_LINE_VALUE_ACTIVE]\<rparr>"
      using True by (simp add: t emit_open_output)
    have "ticks fl rest ?s1 = ?s1"
      by (rule ticks_boundary_idle) (use assms in \<open>simp_all add: s1\<close>)
    then show ?thesis using Cons True by (simp add: s1)
  next
    case False
    have "ticks fl nows s = s"
      by (rule ticks_boundary_idle) (use assms False in auto)
    then show ?thesis using False by auto
  qed
qed

text \<open>
  C5. An open SoftwarePWM whose duty ratio is at most 0 never writes a high level: over any
  run of ticks (with nothing else changing the state in between) the calls reaching the
  hardware are exactly one write of the inactive level when the last emitted level was high
  and the output is open, and none otherwise. With a duty ratio of at least 1 the same holds
  with the levels exchanged. In both cases the cycle anchor is left alone: the phase
  computation is not reached.
\<close>

theorem boundary_ticks:
  "\<not> sp_closed (sp s) \<Longrightarrow>
   (sp_dutyCycle (sp s) \<le> 0 \<longrightarrow>
      hw (ticks fl nows s) = hw s @
        (if lastState (sp s) \<and> \<not> o_closed (out s) \<and> nows \<noteq> []
         then [RequestSetValue (o_request (out s)) (o_pin (out s)) GPIOD_LINE_VALUE_INACTIVE]
         else [])
      \<and> cycleStartNs (sp (ticks fl nows s)) = cycleStartNs (sp s))
   \<and> (sp_dutyCycle (sp s) \<ge> 1 \<longrightarrow>
      hw (ticks fl nows s) = hw s @
        (if \<not> lastState (sp s) \<and> \<not> o_closed (out s) \<and> nows \<noteq> []
         then [RequestSetValue (o_request (out s)) (o_pin (out s)) GPIOD_LINE_VALUE_ACTIVE]
         else [])
      \<and> cycleStartNs (sp (ticks fl nows s)) = cycleStartNs (sp s))"
  using ticks_low [of s fl nows] ticks_high [of s fl nows] by blast

theorem boundary_ticks_witness:
  "\<not> sp_closed (sp soft_off) \<and> sp_dutyCycle (sp soft_off) \<le> 0
   \<and> hw (ticks binary64 [1000000, 2000000, 3000000] soft_off) = [RequestSetValue 1 17 0]
   \<and> \<not> sp_closed (sp soft_full) \<and> sp_dutyCycle (sp soft_full) \<ge> 1
   \<and> hw (ticks binary64 [1000000, 2000000, 3000000] soft_full) = [RequestSetValue 1 17 1]"
  using boundary_ticks [of soft_off binary64 "[1000000, 2000000, 3000000]"]
    boundary_ticks [of soft_full binary64 "[1000000, 2000000, 3000000]"]
  by (simp add: soft_off_def soft_full_def soft_demo_def led_def
      GPIOD_LINE_VALUE_INACTIVE_def GPIOD_LINE_VALUE_ACTIVE_def)

section \<open>Software PWM: the mutators\<close>

lemma sp_setDutyCycle_eq:
  "sp_setDutyCycle ratio s =
     (if sp_closed (sp s) then (Some SoftwarePWMClosed, s)
      else if ratio < 0 \<or> ratio > 1 then (Some DutyCycleOutOfRange, s)
      else (None, s\<lparr>sp := (sp s)\<lparr>sp_dutyCycle := ratio\<rparr>\<rparr>))"
  by (simp add: sp_setDutyCycle_def sp_checkClosed_def)

lemma sp_setFrequency_eq:
  "sp_setFrequency f s =
     (if sp_closed (sp s) then (Some SoftwarePWMClosed, s)
      else if f \<le> 0 then (Some FrequencyNotPositive, s)
      else (None, s\<lparr>sp := (sp s)\<lparr>sp_frequencyHz := f\<rparr>\<rparr>))"
  by (simp add: sp_setFrequency_def sp_checkClosed_def)

lemma phase_cong:
  "cycleStartNs p' = cycleStartNs p \<Longrightarrow> sp_frequencyHz p' = sp_frequencyHz p \<Longrightarrow>
   tick_anchor fl now p' = tick_anchor fl now p \<and> tick_elapsed fl now p' = tick_elapsed fl now p"
  by (simp add: tick_anchor_def tick_elapsed_def periodNs_of_def Let_def)

text \<open>
  C6. \<^verbatim>\<open>setDutyCycle\<close> changes at most the duty ratio and \<^verbatim>\<open>setFrequency\<close> at most the
  frequency: the resulting state is the old one with that one field replaced, whether the
  call succeeds or throws. In particular the cycle anchor and the last emitted level stay,
  and after a change of duty the next tick computes the same anchor and the same elapsed
  time as it would have before. A call succeeds exactly when the handle is open and the
  argument is in range, and then the field holds the argument.
\<close>

theorem sp_mutators_frame:
  "snd (sp_setDutyCycle ratio s) =
      s\<lparr>sp := (sp s)\<lparr>sp_dutyCycle := sp_dutyCycle (sp (snd (sp_setDutyCycle ratio s)))\<rparr>\<rparr>
   \<and> snd (sp_setFrequency f s) =
      s\<lparr>sp := (sp s)\<lparr>sp_frequencyHz := sp_frequencyHz (sp (snd (sp_setFrequency f s)))\<rparr>\<rparr>
   \<and> cycleStartNs (sp (snd (sp_setDutyCycle ratio s))) = cycleStartNs (sp s)
   \<and> lastState (sp (snd (sp_setDutyCycle ratio s))) = lastState (sp s)
   \<and> cycleStartNs (sp (snd (sp_setFrequency f s))) = cycleStartNs (sp s)
   \<and> lastState (sp (snd (sp_setFrequency f s))) = lastState (sp s)
   \<and> tick_anchor fl now (sp (snd (sp_setDutyCycle ratio s))) = tick_anchor fl now (sp s)
   \<and> tick_elapsed fl now (sp (snd (sp_setDutyCycle ratio s))) = tick_elapsed fl now (sp s)
   \<and> (fst (sp_setDutyCycle ratio s) = None) = (\<not> sp_closed (sp s) \<and> 0 \<le> ratio \<and> ratio \<le> 1)
   \<and> (fst (sp_setFrequency f s) = None) = (\<not> sp_closed (sp s) \<and> 0 < f)
   \<and> sp_dutyCycle (sp (snd (sp_setDutyCycle ratio s))) =
        (if fst (sp_setDutyCycle ratio s) = None then ratio else sp_dutyCycle (sp s))
   \<and> sp_frequencyHz (sp (snd (sp_setFrequency f s))) =
        (if fst (sp_setFrequency f s) = None then f else sp_frequencyHz (sp s))"
proof -
  have d: "cycleStartNs (sp (snd (sp_setDutyCycle ratio s))) = cycleStartNs (sp s)"
    "sp_frequencyHz (sp (snd (sp_setDutyCycle ratio s))) = sp_frequencyHz (sp s)"
    by (simp_all add: sp_setDutyCycle_eq)
  have ph: "tick_anchor fl now (sp (snd (sp_setDutyCycle ratio s))) = tick_anchor fl now (sp s)
     \<and> tick_elapsed fl now (sp (snd (sp_setDutyCycle ratio s))) = tick_elapsed fl now (sp s)"
    using d by (rule phase_cong)
  have rest: "snd (sp_setDutyCycle ratio s) =
      s\<lparr>sp := (sp s)\<lparr>sp_dutyCycle := sp_dutyCycle (sp (snd (sp_setDutyCycle ratio s)))\<rparr>\<rparr>"
   "snd (sp_setFrequency f s) =
      s\<lparr>sp := (sp s)\<lparr>sp_frequencyHz := sp_frequencyHz (sp (snd (sp_setFrequency f s)))\<rparr>\<rparr>"
   "lastState (sp (snd (sp_setDutyCycle ratio s))) = lastState (sp s)"
   "cycleStartNs (sp (snd (sp_setFrequency f s))) = cycleStartNs (sp s)"
   "lastState (sp (snd (sp_setFrequency f s))) = lastState (sp s)"
   "(fst (sp_setDutyCycle ratio s) = None) = (\<not> sp_closed (sp s) \<and> 0 \<le> ratio \<and> ratio \<le> 1)"
   "(fst (sp_setFrequency f s) = None) = (\<not> sp_closed (sp s) \<and> 0 < f)"
   "sp_dutyCycle (sp (snd (sp_setDutyCycle ratio s))) =
        (if fst (sp_setDutyCycle ratio s) = None then ratio else sp_dutyCycle (sp s))"
   "sp_frequencyHz (sp (snd (sp_setFrequency f s))) =
        (if fst (sp_setFrequency f s) = None then f else sp_frequencyHz (sp s))"
    by (auto simp: sp_setDutyCycle_eq sp_setFrequency_eq)
  from d(1) ph rest show ?thesis by blast
qed

section \<open>Software PWM: drift correction\<close>








section \<open>Hardware PWM: the mutators\<close>

lemma file_contents_snoc:
  "file_contents (h @ [FsWrite p v ok]) = (if ok then (file_contents h)(p \<mapsto> v) else file_contents h)"
  by (simp add: file_contents_def)

lemma file_contents_snoc2:
  "file_contents (h @ [a, b]) = write_effect (write_effect (file_contents h) a) b"
  by (simp add: file_contents_def)

lemma Math_round_round: "Math_round x = round x"
  by (simp add: Math_round_def round_def)

lemma chan_setDutyCycle_eq:
  "chan_setDutyCycle fl k ratio c h =
     (if c_closed c then (Some (ChannelClosed (c_channel c)), c, h)
      else if ratio < 0 \<or> ratio > 1 then (Some DutyCycleOutOfRange, c, h)
      else if \<not> write_ok k h (DutyCycleFile (c_channel c)) (Math_round (fl (of_int (c_periodNs c) * ratio)))
      then (Some WriteError, c,
            h @ [FsWrite (DutyCycleFile (c_channel c)) (Math_round (fl (of_int (c_periodNs c) * ratio))) False])
      else (None, c\<lparr>c_dutyCycle := ratio\<rparr>,
            h @ [FsWrite (DutyCycleFile (c_channel c)) (Math_round (fl (of_int (c_periodNs c) * ratio))) True]))"
  by (simp add: chan_setDutyCycle_def chan_checkClosed_def fsWriteFileSync_def Let_def)

lemma chan_setFrequency_eq:
  "chan_setFrequency fl k f c h =
     (let periodNs = Math_round (fl (1000000000 / f));
          dutyCycleNs = Math_round (fl (of_int periodNs * c_dutyCycle c));
          ch = c_channel c
      in if c_closed c then (Some (ChannelClosed ch), c, h)
         else if f \<le> 0 then (Some FrequencyNotPositive, c, h)
         else if \<not> write_ok k h (PeriodFile ch) periodNs
         then (Some WriteError, c, h @ [FsWrite (PeriodFile ch) periodNs False])
         else if \<not> write_ok k (h @ [FsWrite (PeriodFile ch) periodNs True]) (DutyCycleFile ch) dutyCycleNs
         then (Some WriteError, c,
               h @ [FsWrite (PeriodFile ch) periodNs True, FsWrite (DutyCycleFile ch) dutyCycleNs False])
         else (None, c\<lparr>c_periodNs := periodNs\<rparr>,
               h @ [FsWrite (PeriodFile ch) periodNs True, FsWrite (DutyCycleFile ch) dutyCycleNs True]))"
  by (simp add: chan_setFrequency_def chan_checkClosed_def fsWriteFileSync_def Let_def)

lemma setDutyCycle_inv:
  "pwm_inv fl (c, h, f) \<Longrightarrow> chan_setDutyCycle fl k ratio c h = (e, c', h') \<Longrightarrow> pwm_inv fl (c', h', f)"
  by (auto simp: chan_setDutyCycle_eq pwm_inv_def Math_round_round file_contents_snoc split: if_splits)

lemma setFrequency_inv:
  "pwm_inv fl (c, h, f) \<Longrightarrow> chan_setFrequency fl k x c h = (e, c', h') \<Longrightarrow>
   pwm_inv fl (c', h', if e = None then x else f)"
  by (auto simp: chan_setFrequency_eq pwm_inv_def Math_round_round file_contents_snoc file_contents_snoc2
      Let_def split: if_splits)

lemma run_calls_inv: "pwm_inv fl st \<Longrightarrow> pwm_inv fl (run_calls fl k calls st)"
proof (induction calls arbitrary: st)
  case Nil
  then show ?case by simp
next
  case (Cons call calls)
  obtain c h f where st: "st = (c, h, f)" by (cases st)
  show ?case
  proof (cases call)
    case (SetDutyCycle ratio)
    obtain e c' h' where r: "chan_setDutyCycle fl k ratio c h = (e, c', h')"
      by (cases "chan_setDutyCycle fl k ratio c h")
    have "pwm_inv fl (c', h', f)" using Cons.prems r unfolding st by (rule setDutyCycle_inv)
    then have "pwm_inv fl (run_calls fl k calls (c', h', f))" by (rule Cons.IH)
    then show ?thesis by (simp add: st SetDutyCycle r)
  next
    case (SetFrequency x)
    obtain e c' h' where r: "chan_setFrequency fl k x c h = (e, c', h')"
      by (cases "chan_setFrequency fl k x c h")
    have "pwm_inv fl (c', h', if e = None then x else f)"
      using Cons.prems r unfolding st by (rule setFrequency_inv)
    then have "pwm_inv fl (run_calls fl k calls (c', h', if e = None then x else f))" by (rule Cons.IH)
    then show ?thesis by (simp add: st SetFrequency r)
  qed
qed

lemma wait_for_dir_present:
  "existsSync k (ChannelDir channel) h \<Longrightarrow> wait_for_dir k channel n h = h"
  by (cases n) simp_all

lemma wait_for_perm_writable:
  "accessSync_W_OK k (PeriodFile channel) h \<Longrightarrow> 0 < n \<Longrightarrow> wait_for_perm k channel n h = (n, h)"
  by (cases n) simp_all

lemma channel_configure_ready:
  assumes "accessSync_W_OK k (PeriodFile channel) h"
  shows "channel_configure fl k channel periodNs duty p h =
     (let c = \<lparr>c_channel = channel, c_periodNs = periodNs, c_dutyCycle = duty, c_closed = False\<rparr>;
          d = Math_round (fl (of_int periodNs * duty));
          w1 = FsWrite (PeriodFile channel) periodNs;
          w2 = FsWrite (DutyCycleFile channel) d;
          w3 = FsWrite (EnableFile channel) 1
      in if \<not> write_ok k h (PeriodFile channel) periodNs then (Inl WriteError, p, h @ [w1 False])
         else if \<not> write_ok k (h @ [w1 True]) (DutyCycleFile channel) d
         then (Inl WriteError, p, h @ [w1 True, w2 False])
         else if \<not> write_ok k (h @ [w1 True, w2 True]) (EnableFile channel) 1
         then (Inl WriteError, p, h @ [w1 True, w2 True, w3 False])
         else (Inr c, p\<lparr>channels := (channels p)(channel \<mapsto> c)\<rparr>, h @ [w1 True, w2 True, w3 True]))"
  using assms
  by (simp add: channel_configure_def wait_for_perm_writable fsWriteFileSync_def Let_def)

lemma channel_configure_eq:
  assumes "wait_for_perm k channel 50 h = (n, h1)"
  shows "channel_configure fl k channel periodNs duty p h =
     (let c = \<lparr>c_channel = channel, c_periodNs = periodNs, c_dutyCycle = duty, c_closed = False\<rparr>;
          d = Math_round (fl (of_int periodNs * duty));
          w1 = FsWrite (PeriodFile channel) periodNs;
          w2 = FsWrite (DutyCycleFile channel) d;
          w3 = FsWrite (EnableFile channel) 1
      in if n = 0 then (Inl (PermissionDenied channel), p, h1)
         else if \<not> write_ok k h1 (PeriodFile channel) periodNs then (Inl WriteError, p, h1 @ [w1 False])
         else if \<not> write_ok k (h1 @ [w1 True]) (DutyCycleFile channel) d
         then (Inl WriteError, p, h1 @ [w1 True, w2 False])
         else if \<not> write_ok k (h1 @ [w1 True, w2 True]) (EnableFile channel) 1
         then (Inl WriteError, p, h1 @ [w1 True, w2 True, w3 False])
         else (Inr c, p\<lparr>channels := (channels p)(channel \<mapsto> c)\<rparr>, h1 @ [w1 True, w2 True, w3 True]))"
  using assms by (simp add: channel_configure_def fsWriteFileSync_def Let_def)

lemma channel_configure_cases:
  obtains (denied) h1 where "channel_configure fl k channel periodNs duty p h = (Inl (PermissionDenied channel), p, h1)"
  | (failed) h1 where "channel_configure fl k channel periodNs duty p h = (Inl WriteError, p, h1)"
  | (ready) h1 where "channel_configure fl k channel periodNs duty p h =
       (Inr \<lparr>c_channel = channel, c_periodNs = periodNs, c_dutyCycle = duty, c_closed = False\<rparr>,
        p\<lparr>channels := (channels p)(channel \<mapsto>
             \<lparr>c_channel = channel, c_periodNs = periodNs, c_dutyCycle = duty, c_closed = False\<rparr>)\<rparr>,
        h1 @ [FsWrite (PeriodFile channel) periodNs True,
              FsWrite (DutyCycleFile channel) (Math_round (fl (of_int periodNs * duty))) True,
              FsWrite (EnableFile channel) 1 True])"
proof -
  obtain n h1 where w: "wait_for_perm k channel 50 h = (n, h1)"
    by (cases "wait_for_perm k channel 50 h")
  let ?d = "Math_round (fl (of_int periodNs * duty))"
  let ?w1 = "FsWrite (PeriodFile channel) periodNs"
  let ?w2 = "FsWrite (DutyCycleFile channel) ?d"
  consider "n = 0"
    | "n \<noteq> 0" "\<not> write_ok k h1 (PeriodFile channel) periodNs"
    | "n \<noteq> 0" "write_ok k h1 (PeriodFile channel) periodNs"
        "\<not> write_ok k (h1 @ [?w1 True]) (DutyCycleFile channel) ?d"
    | "n \<noteq> 0" "write_ok k h1 (PeriodFile channel) periodNs"
        "write_ok k (h1 @ [?w1 True]) (DutyCycleFile channel) ?d"
        "\<not> write_ok k (h1 @ [?w1 True, ?w2 True]) (EnableFile channel) 1"
    | "n \<noteq> 0" "write_ok k h1 (PeriodFile channel) periodNs"
        "write_ok k (h1 @ [?w1 True]) (DutyCycleFile channel) ?d"
        "write_ok k (h1 @ [?w1 True, ?w2 True]) (EnableFile channel) 1"
    by blast
  then show thesis
  proof cases
    case 1
    then show ?thesis using denied [of h1] by (simp add: channel_configure_eq [OF w] Let_def)
  next
    case 2
    then show ?thesis using failed by (simp add: channel_configure_eq [OF w] Let_def)
  next
    case 3
    then show ?thesis using failed by (simp add: channel_configure_eq [OF w] Let_def)
  next
    case 4
    then show ?thesis using failed by (simp add: channel_configure_eq [OF w] Let_def)
  next
    case 5
    then show ?thesis using ready [of h1] by (simp add: channel_configure_eq [OF w] Let_def)
  qed
qed

lemma file_contents_snoc3:
  "file_contents (h @ [a, b, c]) = write_effect (write_effect (write_effect (file_contents h) a) b) c"
  by (simp add: file_contents_def)

lemma channel_configure_inv:
  assumes "channel_configure fl k channel (Math_round (fl (1000000000 / f))) duty p h = (Inr c, p', h')"
  shows "pwm_inv fl (c, h', f)"
  using assms
  by (cases rule: channel_configure_cases [of fl k channel "Math_round (fl (1000000000 / f))" duty p h])
     (auto simp: pwm_inv_def Math_round_round file_contents_snoc3)

lemma channel_configure_no_export_error:
  "fst (channel_configure fl k channel periodNs duty p h) \<noteq> Inl (ExportFailed channel)
   \<and> fst (channel_configure fl k channel periodNs duty p h) \<noteq> Inl (ExportTimeout channel)"
  by (cases rule: channel_configure_cases [of fl k channel periodNs duty p h]) auto

lemma pwm_channel_inv:
  assumes "pwm_channel fl k channel options p h = (Inr c, p', h')"
  shows "pwm_inv fl (c, h', case frequencyHz options of None \<Rightarrow> 1000 | Some f \<Rightarrow> f)"
proof -
  let ?f = "case frequencyHz options of None \<Rightarrow> 1000 | Some f \<Rightarrow> f"
  let ?d = "case dutyCycle options of None \<Rightarrow> 1 / 2 | Some d \<Rightarrow> d"
  from assms obtain h0 where
    "channel_configure fl k channel (Math_round (fl (1000000000 / ?f))) ?d p h0 = (Inr c, p', h')"
    by (auto simp: pwm_channel_def pwm_checkClosed_def fsWriteFileSync_def Let_def
        split: if_splits option.splits)
  then show ?thesis by (rule channel_configure_inv)
qed

text \<open>
  C1. On a hardware channel the duty-cycle file always holds the nearest integer (a tie
  going up) to the product of the handle's period and duty ratio, and the handle's period
  is the nearest integer to the quotient of 1e9 and the frequency last set, product and
  quotient as the arithmetic \<open>fl\<close> gives them: the acquisition of the channel establishes
  this, and every sequence of \<^verbatim>\<open>setDutyCycle\<close> and \<^verbatim>\<open>setFrequency\<close> calls keeps it,
  whatever the arguments and whichever writes the kernel refuses. \<^verbatim>\<open>setFrequency\<close> never
  changes the ratio and \<^verbatim>\<open>setDutyCycle\<close> never changes the period. When \<^verbatim>\<open>setFrequency\<close>
  returns normally the period file and the duty-cycle file hold the values derived from
  the new period; when \<^verbatim>\<open>setDutyCycle\<close> returns normally the duty-cycle file holds the
  value derived from the current period and the new ratio.
\<close>

theorem hardware_pwm_invariant:
  "(pwm_channel fl k channel options p h = (Inr chan, p', hist) \<longrightarrow>
      file_contents hist (DutyCycleFile (c_channel chan))
        = Some (round (fl (of_int (c_periodNs chan) * c_dutyCycle chan)))
    \<and> c_periodNs chan
        = round (fl (1000000000 / (case frequencyHz options of None \<Rightarrow> 1000 | Some f \<Rightarrow> f)))
    \<and> pwm_inv fl (chan, hist, case frequencyHz options of None \<Rightarrow> 1000 | Some f \<Rightarrow> f))
   \<and> (pwm_inv fl st \<longrightarrow> pwm_inv fl (run_calls fl k calls st))
   \<and> pwm_inv fl (c, h, f)
     = (file_contents h (DutyCycleFile (c_channel c))
          = Some (round (fl (of_int (c_periodNs c) * c_dutyCycle c)))
        \<and> c_periodNs c = round (fl (1000000000 / f)))
   \<and> c_dutyCycle (fst (snd (chan_setFrequency fl k x c h))) = c_dutyCycle c
   \<and> c_periodNs (fst (snd (chan_setDutyCycle fl k ratio c h))) = c_periodNs c
   \<and> (fst (chan_setFrequency fl k x c h) = None \<longrightarrow>
        c_periodNs (fst (snd (chan_setFrequency fl k x c h))) = round (fl (1000000000 / x))
      \<and> file_contents (snd (snd (chan_setFrequency fl k x c h))) (PeriodFile (c_channel c))
          = Some (round (fl (1000000000 / x)))
      \<and> file_contents (snd (snd (chan_setFrequency fl k x c h))) (DutyCycleFile (c_channel c))
          = Some (round (fl (of_int (round (fl (1000000000 / x))) * c_dutyCycle c))))
   \<and> (fst (chan_setDutyCycle fl k ratio c h) = None \<longrightarrow>
        c_dutyCycle (fst (snd (chan_setDutyCycle fl k ratio c h))) = ratio
      \<and> file_contents (snd (snd (chan_setDutyCycle fl k ratio c h))) (DutyCycleFile (c_channel c))
          = Some (round (fl (of_int (c_periodNs c) * ratio))))"
proof -
  have inv: "pwm_inv fl (c, h, f)
     = (file_contents h (DutyCycleFile (c_channel c))
          = Some (round (fl (of_int (c_periodNs c) * c_dutyCycle c)))
        \<and> c_periodNs c = round (fl (1000000000 / f)))" for c h f
    by (simp add: pwm_inv_def)
  have a: "pwm_channel fl k channel options p h = (Inr chan, p', hist) \<longrightarrow>
      file_contents hist (DutyCycleFile (c_channel chan))
        = Some (round (fl (of_int (c_periodNs chan) * c_dutyCycle chan)))
    \<and> c_periodNs chan
        = round (fl (1000000000 / (case frequencyHz options of None \<Rightarrow> 1000 | Some f \<Rightarrow> f)))
    \<and> pwm_inv fl (chan, hist, case frequencyHz options of None \<Rightarrow> 1000 | Some f \<Rightarrow> f)"
    using pwm_channel_inv [of fl k channel options p h chan p' hist] by (simp add: inv)
  have b: "pwm_inv fl st \<longrightarrow> pwm_inv fl (run_calls fl k calls st)"
    using run_calls_inv by blast
  have c: "c_dutyCycle (fst (snd (chan_setFrequency fl k x c h))) = c_dutyCycle c"
    by (simp add: chan_setFrequency_eq Let_def)
  have d: "c_periodNs (fst (snd (chan_setDutyCycle fl k ratio c h))) = c_periodNs c"
    by (simp add: chan_setDutyCycle_eq)
  have e: "fst (chan_setFrequency fl k x c h) = None \<longrightarrow>
        c_periodNs (fst (snd (chan_setFrequency fl k x c h))) = round (fl (1000000000 / x))
      \<and> file_contents (snd (snd (chan_setFrequency fl k x c h))) (PeriodFile (c_channel c))
          = Some (round (fl (1000000000 / x)))
      \<and> file_contents (snd (snd (chan_setFrequency fl k x c h))) (DutyCycleFile (c_channel c))
          = Some (round (fl (of_int (round (fl (1000000000 / x))) * c_dutyCycle c)))"
    by (simp add: chan_setFrequency_eq Let_def file_contents_snoc2 Math_round_round)
  have f: "fst (chan_setDutyCycle fl k ratio c h) = None \<longrightarrow>
        c_dutyCycle (fst (snd (chan_setDutyCycle fl k ratio c h))) = ratio
      \<and> file_contents (snd (snd (chan_setDutyCycle fl k ratio c h))) (DutyCycleFile (c_channel c))
          = Some (round (fl (of_int (c_periodNs c) * ratio)))"
    by (simp add: chan_setDutyCycle_eq file_contents_snoc Math_round_round)
  from a b inv [of c h f] c d e f show ?thesis by blast
qed

theorem hardware_pwm_invariant_witness:
  "pwm_channel binary64 plain_sysfs 0 motor_options pwm0 []
     = (Inr motor, pwm0\<lparr>channels := Map.empty(0 \<mapsto> motor)\<rparr>, motor_history)
   \<and> pwm_inv binary64 (motor, motor_history, 1000)
   \<and> pwm_inv binary64 (run_calls binary64 plain_sysfs motor_calls (motor, motor_history, 1000))
   \<and> run_calls binary64 plain_sysfs motor_calls (motor, motor_history, 1000)
     = (motor\<lparr>c_periodNs := 333333333\<rparr>,
        motor_history @ [FsWrite (DutyCycleFile 0) 123457 True,
                         FsWrite (DutyCycleFile 0) 500000 True,
                         FsWrite (PeriodFile 0) 333333333 True,
                         FsWrite (DutyCycleFile 0) 166666667 True], 3)
   \<and> fst (chan_setFrequency binary64 plain_sysfs 3 motor motor_history) = None
   \<and> c_periodNs (fst (snd (chan_setFrequency binary64 plain_sysfs 3 motor motor_history)))
      = 333333333
   \<and> file_contents (snd (snd (chan_setFrequency binary64 plain_sysfs 3 motor motor_history)))
        (DutyCycleFile 0) = Some 166666667
   \<and> sample_ratio = 4447989179171725 / 36028797018963968
   \<and> fst (chan_setDutyCycle binary64 plain_sysfs sample_ratio motor motor_history) = None
   \<and> file_contents
        (snd (snd (chan_setDutyCycle binary64 plain_sysfs sample_ratio motor motor_history)))
        (DutyCycleFile 0) = Some 123457"
proof -
  have ratio: "sample_ratio = 4447989179171725 / 36028797018963968"
    by (simp add: sample_ratio_def binary64_eval)
  have rounded: "round (binary64 (1000000000 / 3)) = 333333333"
    "round (binary64 (333333333 * (1 / 2))) = 166666667"
    "round (binary64 (1000000 * (4447989179171725 / 36028797018963968))) = 123457"
    "round (binary64 (1000000000 / 1000)) = 1000000"
    "round (binary64 (1000000 * (1 / 2))) = 500000"
    by (simp_all add: binary64_eval round_def)
  have acquire: "pwm_channel binary64 plain_sysfs 0 motor_options pwm0 []
     = (Inr motor, pwm0\<lparr>channels := Map.empty(0 \<mapsto> motor)\<rparr>, motor_history)"
    using rounded(4,5)
    by (simp add: pwm_channel_def pwm_checkClosed_def pwm0_def motor_options_def plain_sysfs_def
      fsWriteFileSync_def existsSync_def wait_for_dir_present channel_configure_ready
      accessSync_W_OK_def Math_round_round motor_def motor_history_def Let_def)
  note inst = hardware_pwm_invariant [where fl = binary64 and k = plain_sysfs and channel = 0
      and options = motor_options and p = pwm0 and chan = motor
      and p' = "pwm0\<lparr>channels := Map.empty(0 \<mapsto> motor)\<rparr>" and hist = motor_history
      and st = "(motor, motor_history, 1000)" and calls = motor_calls and c = motor
      and f = 1000 and x = 3 and ratio = sample_ratio]
  have inv0: "pwm_inv binary64 (motor, motor_history, 1000)"
    using inst [where h = "[]"] acquire by (simp add: motor_options_def)
  have inv1: "pwm_inv binary64 (run_calls binary64 plain_sysfs motor_calls (motor, motor_history, 1000))"
    using inst [where h = "[]"] inv0 by blast
  have in_range: "\<not> sample_ratio < 0" "\<not> 1 < sample_ratio"
    unfolding ratio by simp_all
  have run: "run_calls binary64 plain_sysfs motor_calls (motor, motor_history, 1000)
     = (motor\<lparr>c_periodNs := 333333333\<rparr>,
        motor_history @ [FsWrite (DutyCycleFile 0) 123457 True,
                         FsWrite (DutyCycleFile 0) 500000 True,
                         FsWrite (PeriodFile 0) 333333333 True,
                         FsWrite (DutyCycleFile 0) 166666667 True], 3)"
    using rounded in_range
    by (simp add: motor_calls_def chan_setFrequency_eq chan_setDutyCycle_eq plain_sysfs_def
        motor_def Math_round_round) (simp add: ratio)
  have okf: "fst (chan_setFrequency binary64 plain_sysfs 3 motor motor_history) = None"
    by (simp add: chan_setFrequency_eq plain_sysfs_def motor_def Let_def)
  have okd: "fst (chan_setDutyCycle binary64 plain_sysfs sample_ratio motor motor_history) = None"
    using in_range by (simp add: chan_setDutyCycle_eq plain_sysfs_def motor_def)
  have ff: "c_periodNs (fst (snd (chan_setFrequency binary64 plain_sysfs 3 motor motor_history)))
      = 333333333"
    "file_contents (snd (snd (chan_setFrequency binary64 plain_sysfs 3 motor motor_history)))
        (DutyCycleFile 0) = Some 166666667"
    using inst [where h = motor_history] okf rounded(1,2) by (simp_all add: motor_def)
  have fd: "file_contents
        (snd (snd (chan_setDutyCycle binary64 plain_sysfs sample_ratio motor motor_history)))
        (DutyCycleFile 0) = Some 123457"
    using inst [where h = motor_history] okd rounded(3) by (simp add: motor_def ratio)
  from acquire inv0 inv1 run okf ff ratio okd fd show ?thesis by blast
qed

section \<open>Hardware PWM: export of a channel\<close>

text \<open>
  C9. When the write to the export file is refused during the acquisition of a free
  channel with valid parameters: if the channel directory exists, the acquisition goes on
  with the permission wait and the configuration writes, starting right after the refused
  write (no wait for the directory), and whatever happens next it does not end in the
  export error or the export timeout; if the directory does not exist, the acquisition
  ends in the export error and nothing more is written.
\<close>

theorem export_recovery:
  "\<not> p_closed p \<Longrightarrow> channels p channel = None \<Longrightarrow>
   freq = (case frequencyHz options of None \<Rightarrow> 1000 | Some f \<Rightarrow> f) \<Longrightarrow>
   duty = (case dutyCycle options of None \<Rightarrow> 1 / 2 | Some d \<Rightarrow> d) \<Longrightarrow>
   0 < freq \<Longrightarrow> 0 \<le> duty \<Longrightarrow> duty \<le> 1 \<Longrightarrow>
   \<not> write_ok k h ExportFile channel \<Longrightarrow>
   (path_exists k (h @ [FsWrite ExportFile channel False]) (ChannelDir channel) \<longrightarrow>
      pwm_channel fl k channel options p h
        = channel_configure fl k channel (Math_round (fl (1000000000 / freq))) duty p
            (h @ [FsWrite ExportFile channel False])
      \<and> fst (pwm_channel fl k channel options p h) \<noteq> Inl (ExportFailed channel)
      \<and> fst (pwm_channel fl k channel options p h) \<noteq> Inl (ExportTimeout channel))
   \<and> (\<not> path_exists k (h @ [FsWrite ExportFile channel False]) (ChannelDir channel) \<longrightarrow>
      pwm_channel fl k channel options p h
        = (Inl (ExportFailed channel), p, h @ [FsWrite ExportFile channel False]))"
proof -
  assume open_pwm: "\<not> p_closed p" and free: "channels p channel = None"
    and freq: "freq = (case frequencyHz options of None \<Rightarrow> 1000 | Some f \<Rightarrow> f)"
    and duty: "duty = (case dutyCycle options of None \<Rightarrow> 1 / 2 | Some d \<Rightarrow> d)"
    and valid: "0 < freq" "0 \<le> duty" "duty \<le> 1"
    and refused: "\<not> write_ok k h ExportFile channel"
  let ?h1 = "h @ [FsWrite ExportFile channel False]"
  have eq: "pwm_channel fl k channel options p h =
      (if path_exists k ?h1 (ChannelDir channel)
       then channel_configure fl k channel (Math_round (fl (1000000000 / freq))) duty p ?h1
       else (Inl (ExportFailed channel), p, ?h1))"
    using open_pwm free valid refused unfolding freq duty
    by (simp add: pwm_channel_def pwm_checkClosed_def fsWriteFileSync_def existsSync_def Let_def)
  show ?thesis
    using channel_configure_no_export_error [of fl k channel "Math_round (fl (1000000000 / freq))" duty p ?h1]
    by (simp add: eq)
qed

theorem export_recovery_witness:
  "\<not> p_closed pwm0 \<and> channels pwm0 0 = None \<and> \<not> write_ok busy_sysfs [] ExportFile 0
   \<and> path_exists busy_sysfs [FsWrite ExportFile 0 False] (ChannelDir 0)
   \<and> pwm_channel binary64 busy_sysfs 0 motor_options pwm0 []
      = (Inr motor, pwm0\<lparr>channels := Map.empty(0 \<mapsto> motor)\<rparr>,
         [FsWrite ExportFile 0 False, FsWrite (PeriodFile 0) 1000000 True,
          FsWrite (DutyCycleFile 0) 500000 True, FsWrite (EnableFile 0) 1 True])
   \<and> \<not> write_ok absent_sysfs [] ExportFile 0
   \<and> \<not> path_exists absent_sysfs [FsWrite ExportFile 0 False] (ChannelDir 0)
   \<and> pwm_channel binary64 absent_sysfs 0 motor_options pwm0 []
      = (Inl (ExportFailed 0), pwm0, [FsWrite ExportFile 0 False])"
proof -
  have rounded: "round (binary64 (1000000000 / 1000)) = 1000000"
    "round (binary64 (1000000 * (1 / 2))) = 500000"
    by (simp_all add: binary64_eval round_def)
  show ?thesis
    using export_recovery [where fl = binary64 and p = pwm0 and channel = 0 and freq = 1000
        and options = motor_options and duty = "1 / 2" and k = busy_sysfs and h = "[]"]
      export_recovery [where fl = binary64 and p = pwm0 and channel = 0 and freq = 1000
        and options = motor_options and duty = "1 / 2" and k = absent_sysfs and h = "[]"]
      rounded
    by (simp add: pwm0_def motor_options_def busy_sysfs_def absent_sysfs_def plain_sysfs_def
        channel_configure_ready accessSync_W_OK_def Math_round_round motor_def Let_def)
qed

section \<open>Closing a PWM handle\<close>

lemma timer_already_clear: "\<not> timer p \<Longrightarrow> p\<lparr>timer := False\<rparr> = p"
  by (cases p) simp

lemma sp_close_open:
  "\<not> sp_closed (sp s) \<Longrightarrow>
   sp_close s = emit False (s\<lparr>sp := (sp s)\<lparr>sp_closed := True, timer := False\<rparr>\<rparr>)"
  by (cases "timer (sp s)") (simp_all add: sp_close_def Let_def timer_already_clear)

lemma sp_close_closed: "sp_closed (sp s) \<Longrightarrow> sp_close s = (None, s)"
  by (simp add: sp_close_def)

lemma sp_close_marks: "sp_closed (sp (snd (sp_close s)))"
proof (cases "sp_closed (sp s)")
  case True
  then show ?thesis by (simp add: sp_close_closed)
next
  case False
  then show ?thesis
    by (cases "o_closed (out s)") (simp_all add: sp_close_open emit_closed_output emit_open_output)
qed

lemma chan_close_open:
  "\<not> c_closed c \<Longrightarrow>
   chan_close k (c, h) =
     (c\<lparr>c_closed := True\<rparr>,
      h @ [FsWrite (EnableFile (c_channel c)) 0 (write_ok k h (EnableFile (c_channel c)) 0)])"
  by (simp add: chan_close_def chan_mark_closed_def chan_disable_def fsWriteFileSync_def Let_def)

text \<open>
  C3, as the code has it. \<^verbatim>\<open>PWMChannel.close\<close> on an open channel first attempts the write
  of 0 to the enable file, on a handle that is still open, and then marks the handle
  closed; a refused write is swallowed. \<^verbatim>\<open>SoftwarePWM.close\<close> on an open handle marks
  the handle closed and clears the timer first, and only then writes the low level through
  the output: with an open output the low level reaches the hardware once and the last
  level becomes low; with a closed output the write throws, and the handle stays marked
  closed. In both classes a second close changes nothing, writes nothing and raises no
  error.
\<close>

theorem close_order:
  "(\<not> c_closed c \<longrightarrow>
      chan_close k (c, h) = chan_mark_closed (chan_disable k (c, h))
    \<and> chan_disable k (c, h) =
        (c, h @ [FsWrite (EnableFile (c_channel c)) 0 (write_ok k h (EnableFile (c_channel c)) 0)])
    \<and> chan_close k (c, h) =
        (c\<lparr>c_closed := True\<rparr>,
         h @ [FsWrite (EnableFile (c_channel c)) 0 (write_ok k h (EnableFile (c_channel c)) 0)]))
   \<and> chan_close k (chan_close k (c, h)) = chan_close k (c, h)
   \<and> (\<not> sp_closed (sp s) \<longrightarrow>
        sp_close s = emit False (s\<lparr>sp := (sp s)\<lparr>sp_closed := True, timer := False\<rparr>\<rparr>))
   \<and> (\<not> sp_closed (sp s) \<and> \<not> o_closed (out s) \<longrightarrow>
        sp_close s =
          (None, s\<lparr>sp := (sp s)\<lparr>sp_closed := True, timer := False, lastState := False\<rparr>,
                   out := (out s)\<lparr>o_state := False\<rparr>,
                   hw := hw s @ [RequestSetValue (o_request (out s)) (o_pin (out s))
                                   GPIOD_LINE_VALUE_INACTIVE]\<rparr>))
   \<and> (\<not> sp_closed (sp s) \<and> o_closed (out s) \<longrightarrow>
        sp_close s =
          (Some (OutputClosed (o_pin (out s))),
           s\<lparr>sp := (sp s)\<lparr>sp_closed := True, timer := False\<rparr>\<rparr>))
   \<and> sp_close (snd (sp_close s)) = (None, snd (sp_close s))"
proof -
  have a: "\<not> c_closed c \<longrightarrow>
      chan_close k (c, h) = chan_mark_closed (chan_disable k (c, h))
    \<and> chan_disable k (c, h) =
        (c, h @ [FsWrite (EnableFile (c_channel c)) 0 (write_ok k h (EnableFile (c_channel c)) 0)])
    \<and> chan_close k (c, h) =
        (c\<lparr>c_closed := True\<rparr>,
         h @ [FsWrite (EnableFile (c_channel c)) 0 (write_ok k h (EnableFile (c_channel c)) 0)])"
    by (simp add: chan_close_open chan_mark_closed_def chan_disable_def fsWriteFileSync_def Let_def)
  have b: "chan_close k (chan_close k (c, h)) = chan_close k (c, h)"
    by (cases "c_closed c") (simp_all add: chan_close_open, simp_all add: chan_close_def)
  have c: "\<not> sp_closed (sp s) \<longrightarrow>
        sp_close s = emit False (s\<lparr>sp := (sp s)\<lparr>sp_closed := True, timer := False\<rparr>\<rparr>)"
    by (simp add: sp_close_open)
  have d: "\<not> sp_closed (sp s) \<and> \<not> o_closed (out s) \<longrightarrow>
        sp_close s =
          (None, s\<lparr>sp := (sp s)\<lparr>sp_closed := True, timer := False, lastState := False\<rparr>,
                   out := (out s)\<lparr>o_state := False\<rparr>,
                   hw := hw s @ [RequestSetValue (o_request (out s)) (o_pin (out s))
                                   GPIOD_LINE_VALUE_INACTIVE]\<rparr>)"
    by (simp add: sp_close_open emit_open_output)
  have e: "\<not> sp_closed (sp s) \<and> o_closed (out s) \<longrightarrow>
        sp_close s =
          (Some (OutputClosed (o_pin (out s))),
           s\<lparr>sp := (sp s)\<lparr>sp_closed := True, timer := False\<rparr>\<rparr>)"
    by (simp add: sp_close_open emit_closed_output)
  have f: "sp_close (snd (sp_close s)) = (None, snd (sp_close s))"
    using sp_close_marks by (rule sp_close_closed)
  from a b c d e f show ?thesis by blast
qed

theorem close_order_witness:
  "\<not> c_closed motor
   \<and> chan_close plain_sysfs (motor, motor_history)
      = (motor_closed, motor_history @ [FsWrite (EnableFile 0) 0 True])
   \<and> \<not> sp_closed (sp soft_demo) \<and> \<not> o_closed (out soft_demo)
   \<and> hw (snd (sp_close soft_demo)) = [RequestSetValue 1 17 0]
   \<and> sp_closed (sp (snd (sp_close soft_demo)))
   \<and> \<not> sp_closed (sp soft_orphan) \<and> o_closed (out soft_orphan)
   \<and> fst (sp_close soft_orphan) = Some (OutputClosed 17)
   \<and> chan_close plain_sysfs (chan_close plain_sysfs (motor, motor_history))
      = chan_close plain_sysfs (motor, motor_history)
   \<and> sp_close (snd (sp_close soft_demo)) = (None, snd (sp_close soft_demo))"
proof -
  note open_case = close_order [of motor plain_sysfs motor_history soft_demo]
  note orphan_case = close_order [of motor plain_sysfs motor_history soft_orphan]
  have first_close:
    "\<not> c_closed motor
     \<and> chan_close plain_sysfs (motor, motor_history)
        = (motor_closed, motor_history @ [FsWrite (EnableFile 0) 0 True])
     \<and> \<not> sp_closed (sp soft_demo) \<and> \<not> o_closed (out soft_demo)
     \<and> hw (snd (sp_close soft_demo)) = [RequestSetValue 1 17 0]
     \<and> sp_closed (sp (snd (sp_close soft_demo)))
     \<and> \<not> sp_closed (sp soft_orphan) \<and> o_closed (out soft_orphan)
     \<and> fst (sp_close soft_orphan) = Some (OutputClosed 17)"
    using open_case orphan_case
    by (simp add: motor_def motor_closed_def plain_sysfs_def soft_demo_def soft_orphan_def
        led_def led_closed_def GPIOD_LINE_VALUE_INACTIVE_def chan_mark_closed_def
        emit_open_output emit_closed_output)
  have second_close:
    "chan_close plain_sysfs (chan_close plain_sysfs (motor, motor_history))
       = chan_close plain_sysfs (motor, motor_history)
     \<and> sp_close (snd (sp_close soft_demo)) = (None, snd (sp_close soft_demo))"
    using open_case by blast
  from first_close second_close show ?thesis by blast
qed

text \<open>
  C3 as stated fails for SoftwarePWM: closing a SoftwarePWM whose output has been closed
  throws from the write, no low level has been written, and the handle is marked closed
  all the same, so the mark came first.
\<close>

theorem sp_close_counterexample:
  "fst (sp_close soft_orphan) = Some (OutputClosed 17)
   \<and> sp_closed (sp (snd (sp_close soft_orphan)))
   \<and> hw (snd (sp_close soft_orphan)) = hw soft_orphan"
  by (simp add: sp_close_def emit_def output_write_def output_checkClosed_def
      soft_orphan_def soft_demo_def led_closed_def led_def Let_def)

section \<open>Operations on a closed handle\<close>

lemma output_closed_ops:
  assumes "o_closed gout"
  shows "output_on gout h = (Some (OutputClosed (o_pin gout)), gout, h)"
    and "output_off gout h = (Some (OutputClosed (o_pin gout)), gout, h)"
    and "output_toggle gout h = (Some (OutputClosed (o_pin gout)), gout, h)"
    and "output_write v gout h = (Some (OutputClosed (o_pin gout)), gout, h)"
  using assms
  by (simp_all add: output_on_def output_off_def output_toggle_def output_write_def
      output_checkClosed_def)

lemma input_closed_ops:
  assumes "i_closed (inp s)"
  shows "input_read lib s = (Inl (InputClosed (i_pin (inp s))), s)"
    and "onEdge callback s = (Some (InputClosed (i_pin (inp s))), s)"
    and "waitForEdge lib timeoutMs s = (Inl (InputClosed (i_pin (inp s))), s)"
    and "edges lib fuel s = (Inl (InputClosed (i_pin (inp s))), s)"
  using assms
  by (simp_all add: input_read_def onEdge_def waitForEdge_def edges_def input_checkClosed_def)

lemma channel_closed_ops:
  assumes "c_closed c"
  shows "chan_setDutyCycle fl k ratio c h = (Some (ChannelClosed (c_channel c)), c, h)"
    and "chan_setFrequency fl k f c h = (Some (ChannelClosed (c_channel c)), c, h)"
  using assms by (simp_all add: chan_setDutyCycle_def chan_setFrequency_def chan_checkClosed_def)

lemma soft_closed_ops:
  assumes "sp_closed (sp e)"
  shows "sp_setDutyCycle ratio e = (Some SoftwarePWMClosed, e)"
    and "sp_setFrequency f e = (Some SoftwarePWMClosed, e)"
  using assms by (simp_all add: sp_setDutyCycle_def sp_setFrequency_def sp_checkClosed_def)

lemma offEdge_never_throws: "fst (offEdge callback s) = None"
  by (simp add: offEdge_def Let_def)

lemma offEdge_no_hardware: "ihw (snd (offEdge callback s)) = ihw s"
  by (simp add: offEdge_def Let_def stopPolling_def)

lemma input_close_fields:
  "edgeCallbacks (inp (input_close s)) = (if i_closed (inp s) then edgeCallbacks (inp s) else [])"
  "pollInterval (inp (input_close s)) = (if i_closed (inp s) then pollInterval (inp s) else False)"
  by (simp_all add: input_close_def stopPolling_def Let_def split: option.splits)

lemma same_callbacks: "edgeCallbacks i = cs \<Longrightarrow> i\<lparr>edgeCallbacks := cs\<rparr> = i"
  by (cases i) simp

lemma same_inp: "s\<lparr>inp := inp s\<rparr> = s"
  by (cases s) simp

lemma offEdge_after_close:
  assumes "\<not> i_closed (inp s)"
  shows "offEdge callback (input_close s) = (None, input_close s)"
  using assms by (simp add: offEdge_def Let_def input_close_fields same_callbacks)

text \<open>
  C4, as the code has it. On a closed handle every method that starts with the closed
  check throws the closed-handle error and leaves the handle, the call history and the
  file history as they were: \<^verbatim>\<open>on\<close>, \<^verbatim>\<open>off\<close>, \<^verbatim>\<open>toggle\<close> and \<^verbatim>\<open>write\<close> of GPIOOutput;
  \<^verbatim>\<open>read\<close>, \<^verbatim>\<open>onEdge\<close>, \<^verbatim>\<open>waitForEdge\<close> and \<^verbatim>\<open>edges\<close> of GPIOInput; \<^verbatim>\<open>setDutyCycle\<close>
  and \<^verbatim>\<open>setFrequency\<close> of PWMChannel and of SoftwarePWM. \<^verbatim>\<open>GPIOInput.offEdge\<close> has no
  closed check: it never throws and never calls the library, and on a handle closed by
  \<^verbatim>\<open>close\<close> it changes nothing.
\<close>

theorem closed_handle_fails_fast:
  "(o_closed gout \<longrightarrow>
      output_on gout h = (Some (OutputClosed (o_pin gout)), gout, h)
    \<and> output_off gout h = (Some (OutputClosed (o_pin gout)), gout, h)
    \<and> output_toggle gout h = (Some (OutputClosed (o_pin gout)), gout, h)
    \<and> output_write v gout h = (Some (OutputClosed (o_pin gout)), gout, h))
   \<and> (i_closed (inp s) \<longrightarrow>
      input_read lib s = (Inl (InputClosed (i_pin (inp s))), s)
    \<and> onEdge callback s = (Some (InputClosed (i_pin (inp s))), s)
    \<and> waitForEdge lib timeoutMs s = (Inl (InputClosed (i_pin (inp s))), s)
    \<and> edges lib fuel s = (Inl (InputClosed (i_pin (inp s))), s))
   \<and> (c_closed c \<longrightarrow>
      chan_setDutyCycle fl k ratio c fh = (Some (ChannelClosed (c_channel c)), c, fh)
    \<and> chan_setFrequency fl k f c fh = (Some (ChannelClosed (c_channel c)), c, fh))
   \<and> (sp_closed (sp e) \<longrightarrow>
      sp_setDutyCycle ratio e = (Some SoftwarePWMClosed, e)
    \<and> sp_setFrequency f e = (Some SoftwarePWMClosed, e))
   \<and> fst (offEdge callback s) = None
   \<and> ihw (snd (offEdge callback s)) = ihw s
   \<and> (\<not> i_closed (inp live) \<longrightarrow> offEdge callback (input_close live) = (None, input_close live))"
proof -
  have a: "o_closed gout \<longrightarrow>
      output_on gout h = (Some (OutputClosed (o_pin gout)), gout, h)
    \<and> output_off gout h = (Some (OutputClosed (o_pin gout)), gout, h)
    \<and> output_toggle gout h = (Some (OutputClosed (o_pin gout)), gout, h)
    \<and> output_write v gout h = (Some (OutputClosed (o_pin gout)), gout, h)"
    by (simp add: output_closed_ops)
  have b: "i_closed (inp s) \<longrightarrow>
      input_read lib s = (Inl (InputClosed (i_pin (inp s))), s)
    \<and> onEdge callback s = (Some (InputClosed (i_pin (inp s))), s)
    \<and> waitForEdge lib timeoutMs s = (Inl (InputClosed (i_pin (inp s))), s)
    \<and> edges lib fuel s = (Inl (InputClosed (i_pin (inp s))), s)"
    by (simp add: input_closed_ops)
  have c: "c_closed c \<longrightarrow>
      chan_setDutyCycle fl k ratio c fh = (Some (ChannelClosed (c_channel c)), c, fh)
    \<and> chan_setFrequency fl k f c fh = (Some (ChannelClosed (c_channel c)), c, fh)"
    by (simp add: channel_closed_ops)
  have d: "sp_closed (sp e) \<longrightarrow>
      sp_setDutyCycle ratio e = (Some SoftwarePWMClosed, e)
    \<and> sp_setFrequency f e = (Some SoftwarePWMClosed, e)"
    by (simp add: soft_closed_ops)
  have e: "\<not> i_closed (inp live) \<longrightarrow> offEdge callback (input_close live) = (None, input_close live)"
    by (simp add: offEdge_after_close)
  from a b c d e offEdge_never_throws [of callback s] offEdge_no_hardware [of callback s]
  show ?thesis by blast
qed

theorem closed_handle_fails_fast_witness:
  "o_closed led_closed \<and> output_write True led_closed [] = (Some (OutputClosed 17), led_closed, [])
   \<and> output_toggle led_closed [] = (Some (OutputClosed 17), led_closed, [])
   \<and> i_closed (inp button_closed)
   \<and> onEdge 7 button_closed = (Some (InputClosed 27), button_closed)
   \<and> waitForEdge exclusive_lib (Some 0) button_closed = (Inl (InputClosed 27), button_closed)
   \<and> c_closed motor_closed
   \<and> chan_setDutyCycle binary64 plain_sysfs (3 / 4) motor_closed motor_history
       = (Some (ChannelClosed 0), motor_closed, motor_history)
   \<and> sp_closed (sp soft_closed)
   \<and> sp_setFrequency 50 soft_closed = (Some SoftwarePWMClosed, soft_closed)
   \<and> \<not> i_closed (inp button)
   \<and> offEdge 7 (input_close button) = (None, input_close button)"
  using closed_handle_fails_fast [where gout = led_closed and h = "[]" and v = True
      and s = button_closed and lib = exclusive_lib and callback = 7 and timeoutMs = "Some 0"
      and c = motor_closed and fl = binary64 and k = plain_sysfs and ratio = "3 / 4" and fh = motor_history
      and e = soft_closed and f = 50 and live = button and fuel = 0]
  by (simp add: led_closed_def led_def button_closed_def button_def input_close_def stopPolling_def
      motor_closed_def motor_def soft_closed_def soft_demo_def)

text \<open>
  C4 as stated fails for \<^verbatim>\<open>offEdge\<close>: on a closed input it returns normally.
\<close>

theorem offEdge_counterexample:
  "i_closed (inp button_closed) \<and> offEdge 7 button_closed = (None, button_closed)"
  by (simp add: button_closed_def button_def input_close_def stopPolling_def offEdge_def)

section \<open>Waiting for a single edge\<close>

lemma waitForEdge_open:
  assumes "\<not> i_closed (inp s)" and "i_edge (inp s) \<noteq> EdgeNone" and "timeoutNs_of timeoutMs = Inr ns"
  shows "waitForEdge lib timeoutMs s =
     (let request = i_request (inp s);
          h1 = ihw s @ [WaitEdgeEvents request ns];
          h2 = h1 @ [ReadEdgeEvents request 1];
          result = gpiod_line_request_wait_edge_events lib (ihw s) request ns
      in if result < 0 then (Inl WaitFailed, s\<lparr>ihw := h1\<rparr>)
         else if result = 0 then (Inr None, s\<lparr>ihw := h1\<rparr>)
         else if gpiod_line_request_read_edge_events lib h1 request 1 < 1
         then (Inr None, s\<lparr>ihw := h2\<rparr>)
         else (Inr (Some (readEventFromBuffer lib h2 0)), s\<lparr>ihw := h2\<rparr>))"
  using assms by (simp add: waitForEdge_def input_checkClosed_def Let_def)

text \<open>
  C8. On an open input with edge detection on: an absent timeout becomes -1 nanoseconds,
  and that is what the kernel wait is called with (negative: wait forever); a timeout of
  0 ms becomes 0 ns, and when the wait then reports nothing pending the call returns null
  after that single wait call, without a read. Whenever the wait reports a pending event,
  exactly one read of at most one event follows, and the call returns the event at index 0
  of the buffer (null only if the read delivered no event).
\<close>

theorem waitForEdge_timeouts:
  "\<not> i_closed (inp s) \<Longrightarrow> i_edge (inp s) \<noteq> EdgeNone \<Longrightarrow>
   timeoutNs_of None = Inr (- 1)
   \<and> timeoutNs_of (Some 0) = Inr 0
   \<and> take (Suc (length (ihw s))) (ihw (snd (waitForEdge lib None s)))
       = ihw s @ [WaitEdgeEvents (i_request (inp s)) (- 1)]
   \<and> (gpiod_line_request_wait_edge_events lib (ihw s) (i_request (inp s)) 0 = 0 \<longrightarrow>
        waitForEdge lib (Some 0) s
          = (Inr None, s\<lparr>ihw := ihw s @ [WaitEdgeEvents (i_request (inp s)) 0]\<rparr>))
   \<and> (timeoutNs_of timeoutMs = Inr ns
        \<and> gpiod_line_request_wait_edge_events lib (ihw s) (i_request (inp s)) ns > 0 \<longrightarrow>
        ihw (snd (waitForEdge lib timeoutMs s))
          = ihw s @ [WaitEdgeEvents (i_request (inp s)) ns, ReadEdgeEvents (i_request (inp s)) 1]
      \<and> fst (waitForEdge lib timeoutMs s)
          = Inr (if gpiod_line_request_read_edge_events lib
                      (ihw s @ [WaitEdgeEvents (i_request (inp s)) ns]) (i_request (inp s)) 1 < 1
                 then None
                 else Some (readEventFromBuffer lib
                              (ihw s @ [WaitEdgeEvents (i_request (inp s)) ns,
                                        ReadEdgeEvents (i_request (inp s)) 1]) 0)))"
proof -
  assume live: "\<not> i_closed (inp s)" and edge_on: "i_edge (inp s) \<noteq> EdgeNone"
  have absent: "timeoutNs_of None = Inr (- 1)" by (simp add: timeoutNs_of_def)
  have zero: "timeoutNs_of (Some 0) = Inr 0" by (simp add: timeoutNs_of_def)
  have a: "take (Suc (length (ihw s))) (ihw (snd (waitForEdge lib None s)))
       = ihw s @ [WaitEdgeEvents (i_request (inp s)) (- 1)]"
    by (simp add: waitForEdge_open [OF live edge_on absent] Let_def)
  have b: "gpiod_line_request_wait_edge_events lib (ihw s) (i_request (inp s)) 0 = 0 \<longrightarrow>
        waitForEdge lib (Some 0) s
          = (Inr None, s\<lparr>ihw := ihw s @ [WaitEdgeEvents (i_request (inp s)) 0]\<rparr>)"
    by (simp add: waitForEdge_open [OF live edge_on zero] Let_def)
  have c: "timeoutNs_of timeoutMs = Inr ns
        \<and> gpiod_line_request_wait_edge_events lib (ihw s) (i_request (inp s)) ns > 0 \<longrightarrow>
        ihw (snd (waitForEdge lib timeoutMs s))
          = ihw s @ [WaitEdgeEvents (i_request (inp s)) ns, ReadEdgeEvents (i_request (inp s)) 1]
      \<and> fst (waitForEdge lib timeoutMs s)
          = Inr (if gpiod_line_request_read_edge_events lib
                      (ihw s @ [WaitEdgeEvents (i_request (inp s)) ns]) (i_request (inp s)) 1 < 1
                 then None
                 else Some (readEventFromBuffer lib
                              (ihw s @ [WaitEdgeEvents (i_request (inp s)) ns,
                                        ReadEdgeEvents (i_request (inp s)) 1]) 0))"
  proof (intro impI, elim conjE)
    assume t: "timeoutNs_of timeoutMs = Inr ns"
      and pending: "gpiod_line_request_wait_edge_events lib (ihw s) (i_request (inp s)) ns > 0"
    show "ihw (snd (waitForEdge lib timeoutMs s))
          = ihw s @ [WaitEdgeEvents (i_request (inp s)) ns, ReadEdgeEvents (i_request (inp s)) 1]
      \<and> fst (waitForEdge lib timeoutMs s)
          = Inr (if gpiod_line_request_read_edge_events lib
                      (ihw s @ [WaitEdgeEvents (i_request (inp s)) ns]) (i_request (inp s)) 1 < 1
                 then None
                 else Some (readEventFromBuffer lib
                              (ihw s @ [WaitEdgeEvents (i_request (inp s)) ns,
                                        ReadEdgeEvents (i_request (inp s)) 1]) 0))"
      using pending by (simp add: waitForEdge_open [OF live edge_on t] Let_def)
  qed
  from absent zero a b c show ?thesis by blast
qed

theorem waitForEdge_timeouts_witness:
  "\<not> i_closed (inp button) \<and> i_edge (inp button) \<noteq> EdgeNone
   \<and> ihw (snd (waitForEdge exclusive_lib None button)) = [WaitEdgeEvents 2 (- 1)]
   \<and> gpiod_line_request_wait_edge_events exclusive_lib (ihw button) (i_request (inp button)) 0 = 0
   \<and> waitForEdge exclusive_lib (Some 0) button = (Inr None, button\<lparr>ihw := [WaitEdgeEvents 2 0]\<rparr>)
   \<and> timeoutNs_of (Some 5) = Inr 5000000
   \<and> gpiod_line_request_wait_edge_events events_lib (ihw button) (i_request (inp button)) 5000000 > 0
   \<and> ihw (snd (waitForEdge events_lib (Some 5) button))
      = [WaitEdgeEvents 2 5000000, ReadEdgeEvents 2 1]
   \<and> fst (waitForEdge events_lib (Some 5) button) = Inr (Some (edge_event Rising 1))"
proof -
  have t: "timeoutNs_of (Some 5) = Inr 5000000" by (simp add: timeoutNs_of_def)
  have one_call: "length (ihw (snd (waitForEdge exclusive_lib None button))) = 1"
    by (simp add: waitForEdge_def input_checkClosed_def timeoutNs_of_def button_def
        exclusive_lib_def Let_def)
  have absent: "ihw (snd (waitForEdge exclusive_lib None button)) = [WaitEdgeEvents 2 (- 1)]"
    using waitForEdge_timeouts [of button exclusive_lib None "- 1"] one_call
    by (simp add: button_def)
  have rest: "\<not> i_closed (inp button) \<and> i_edge (inp button) \<noteq> EdgeNone
   \<and> gpiod_line_request_wait_edge_events exclusive_lib (ihw button) (i_request (inp button)) 0 = 0
   \<and> waitForEdge exclusive_lib (Some 0) button = (Inr None, button\<lparr>ihw := [WaitEdgeEvents 2 0]\<rparr>)
   \<and> gpiod_line_request_wait_edge_events events_lib (ihw button) (i_request (inp button)) 5000000 > 0
   \<and> ihw (snd (waitForEdge events_lib (Some 5) button))
      = [WaitEdgeEvents 2 5000000, ReadEdgeEvents 2 1]
   \<and> fst (waitForEdge events_lib (Some 5) button) = Inr (Some (edge_event Rising 1))"
    using waitForEdge_timeouts [of button exclusive_lib "Some 0" 0]
      waitForEdge_timeouts [of button events_lib "Some 5" 5000000] t
    by (simp add: button_def exclusive_lib_def events_lib_def readEventFromBuffer_def
        edge_event_def GPIOD_EDGE_EVENT_TYPE_RISING_EDGE_def)
  from t absent rest show ?thesis by blast
qed

section \<open>Dispatch of edge events to callbacks\<close>

text \<open>
  Callbacks that leave the handle alone: they make no \<^verbatim>\<open>onEdge\<close> and no \<^verbatim>\<open>offEdge\<close> call
  while they run. They may throw.
\<close>

lemma invoke_quiet:
  assumes "fst (does c ev) = []"
  shows "invoke does c ev s =
     (if snd (does c ev)
      then s\<lparr>delivered := delivered s @ [(c, ev)], console_errors := console_errors s @ [(c, ev)]\<rparr>
      else s\<lparr>delivered := delivered s @ [(c, ev)]\<rparr>)"
  using assms by (cases "does c ev") (simp add: invoke_def Let_def)

lemma dispatch_quiet:
  assumes quiet: "\<And>c. fst (does c ev) = []"
  shows "length (edgeCallbacks (inp s)) - index < fuel \<Longrightarrow>
     \<exists>s'. dispatch fuel does ev index s = Some s'
       \<and> delivered s' = delivered s @ map (\<lambda>c. (c, ev)) (drop index (edgeCallbacks (inp s)))
       \<and> console_errors s' = console_errors s
           @ map (\<lambda>c. (c, ev)) (filter (\<lambda>c. snd (does c ev)) (drop index (edgeCallbacks (inp s))))
       \<and> inp s' = inp s \<and> ihw s' = ihw s"
proof (induction fuel arbitrary: index s)
  case 0
  then show ?case by simp
next
  case (Suc fuel)
  let ?cbs = "edgeCallbacks (inp s)"
  show ?case
  proof (cases "index < length ?cbs")
    case True
    let ?c = "?cbs ! index"
    let ?t = "invoke does ?c ev s"
    have t: "inp ?t = inp s" "ihw ?t = ihw s" "delivered ?t = delivered s @ [(?c, ev)]"
      "console_errors ?t = console_errors s @ (if snd (does ?c ev) then [(?c, ev)] else [])"
      by (simp_all add: invoke_quiet quiet)
    have "length (edgeCallbacks (inp ?t)) - Suc index < fuel"
      using Suc.prems True by (simp add: t)
    from Suc.IH [OF this] obtain s' where s': "dispatch fuel does ev (Suc index) ?t = Some s'"
      "delivered s' = delivered ?t @ map (\<lambda>c. (c, ev)) (drop (Suc index) (edgeCallbacks (inp ?t)))"
      "console_errors s' = console_errors ?t
           @ map (\<lambda>c. (c, ev)) (filter (\<lambda>c. snd (does c ev)) (drop (Suc index) (edgeCallbacks (inp ?t))))"
      "inp s' = inp ?t" "ihw s' = ihw ?t"
      by blast
    have split: "drop index ?cbs = ?c # drop (Suc index) ?cbs"
      using True by (simp add: Cons_nth_drop_Suc)
    have "dispatch (Suc fuel) does ev index s = Some s'"
      using True s'(1) by simp
    moreover have "delivered s' = delivered s @ map (\<lambda>c. (c, ev)) (drop index ?cbs)"
      by (simp add: s'(2) t split)
    moreover have "console_errors s' = console_errors s
           @ map (\<lambda>c. (c, ev)) (filter (\<lambda>c. snd (does c ev)) (drop index ?cbs))"
      by (simp add: s'(3) t split)
    moreover have "inp s' = inp s" "ihw s' = ihw s"
      by (simp_all add: s'(4,5) t)
    ultimately show ?thesis by blast
  next
    case False
    then show ?thesis by simp
  qed
qed

lemma dispatch_all_quiet:
  assumes quiet: "\<And>c ev. fst (does c ev) = []"
  shows "length (edgeCallbacks (inp s)) < fuel \<Longrightarrow>
     \<exists>s'. dispatch_all fuel does events s = Some s'
       \<and> delivered s'
           = delivered s @ concat (map (\<lambda>ev. map (\<lambda>c. (c, ev)) (edgeCallbacks (inp s))) events)
       \<and> console_errors s'
           = console_errors s
             @ concat (map (\<lambda>ev. map (\<lambda>c. (c, ev))
                                   (filter (\<lambda>c. snd (does c ev)) (edgeCallbacks (inp s)))) events)
       \<and> inp s' = inp s \<and> ihw s' = ihw s"
proof (induction events arbitrary: s)
  case Nil
  then show ?case by simp
next
  case (Cons ev events)
  have "length (edgeCallbacks (inp s)) - 0 < fuel" using Cons.prems by simp
  from dispatch_quiet [of does ev, OF quiet this]
  obtain s1 where s1: "dispatch fuel does ev 0 s = Some s1"
    "delivered s1 = delivered s @ map (\<lambda>c. (c, ev)) (edgeCallbacks (inp s))"
    "console_errors s1 = console_errors s
       @ map (\<lambda>c. (c, ev)) (filter (\<lambda>c. snd (does c ev)) (edgeCallbacks (inp s)))"
    "inp s1 = inp s" "ihw s1 = ihw s"
    by auto
  have "length (edgeCallbacks (inp s1)) < fuel" using Cons.prems by (simp add: s1)
  from Cons.IH [OF this] obtain s' where s': "dispatch_all fuel does events s1 = Some s'"
    "delivered s'
       = delivered s1 @ concat (map (\<lambda>ev. map (\<lambda>c. (c, ev)) (edgeCallbacks (inp s1))) events)"
    "console_errors s'
       = console_errors s1
         @ concat (map (\<lambda>ev. map (\<lambda>c. (c, ev))
                               (filter (\<lambda>c. snd (does c ev)) (edgeCallbacks (inp s1)))) events)"
    "inp s' = inp s1" "ihw s' = ihw s1"
    by blast
  have "dispatch_all fuel does (ev # events) s = Some s'"
    by (simp add: s1(1) s'(1))
  then show ?case by (simp add: s' s1)
qed

lemma poll_open:
  assumes "\<not> i_closed (inp s)" and "edgeCallbacks (inp s) \<noteq> []"
  shows "poll fuel lib does s =
     (if gpiod_line_request_wait_edge_events lib (ihw s) (i_request (inp s)) 0 > 0
      then dispatch_all fuel does (drained lib s)
             (s\<lparr>ihw := ihw s @ [WaitEdgeEvents (i_request (inp s)) 0,
                                  ReadEdgeEvents (i_request (inp s)) 16]\<rparr>)
      else Some (s\<lparr>ihw := ihw s @ [WaitEdgeEvents (i_request (inp s)) 0]\<rparr>))"
  using assms by (simp add: poll_def drained_def Let_def)

lemma poll_quiet:
  assumes quiet: "\<And>c ev. fst (does c ev) = []"
    and live: "\<not> i_closed (inp s)" and fuel: "length (edgeCallbacks (inp s)) < fuel"
  shows "\<exists>s'. poll fuel lib does s = Some s'
       \<and> delivered s'
           = delivered s
             @ concat (map (\<lambda>ev. map (\<lambda>c. (c, ev)) (edgeCallbacks (inp s))) (drained lib s))
       \<and> console_errors s'
           = console_errors s
             @ concat (map (\<lambda>ev. map (\<lambda>c. (c, ev))
                                   (filter (\<lambda>c. snd (does c ev)) (edgeCallbacks (inp s))))
                        (drained lib s))
       \<and> (edgeCallbacks (inp s) \<noteq> [] \<longrightarrow> inp s' = inp s)"
proof (cases "edgeCallbacks (inp s) = []")
  case True
  then show ?thesis by (simp add: poll_def stopPolling_def)
next
  case False
  show ?thesis
  proof (cases "gpiod_line_request_wait_edge_events lib (ihw s) (i_request (inp s)) 0 > 0")
    case True
    let ?s2 = "s\<lparr>ihw := ihw s @ [WaitEdgeEvents (i_request (inp s)) 0,
                                   ReadEdgeEvents (i_request (inp s)) 16]\<rparr>"
    have "length (edgeCallbacks (inp ?s2)) < fuel" using fuel by simp
    from dispatch_all_quiet [of does ?s2 fuel "drained lib s", OF quiet this]
    show ?thesis using live False True by (simp add: poll_open) blast
  next
    case no_event: False
    then have "drained lib s = []" by (simp add: drained_def)
    then show ?thesis using live False no_event by (simp add: poll_open)
  qed
qed

lemma received_append: "received c (xs @ ys) = received c xs @ received c ys"
  by (simp add: received_def)

lemma received_one_event: "received c (map (\<lambda>c'. (c', ev)) cbs) = replicate (count_list cbs c) ev"
  by (induction cbs) (simp_all add: received_def)

lemma received_events:
  "received c (concat (map (\<lambda>ev. map (\<lambda>c'. (c', ev)) cbs) events))
     = concat (map (replicate (count_list cbs c)) events)"
  by (induction events) (simp_all add: received_append received_one_event, simp add: received_def)

lemma count_list_remove1:
  "count_list (remove1 x xs) y = count_list xs y - (if y = x then 1 else 0)"
  by (induction xs) auto

lemma offEdge_effect:
  "edgeCallbacks (inp (snd (offEdge cb s))) = remove1 cb (edgeCallbacks (inp s))
   \<and> i_closed (inp (snd (offEdge cb s))) = i_closed (inp s)
   \<and> i_request (inp (snd (offEdge cb s))) = i_request (inp s)
   \<and> ihw (snd (offEdge cb s)) = ihw s
   \<and> delivered (snd (offEdge cb s)) = delivered s
   \<and> console_errors (snd (offEdge cb s)) = console_errors s"
  by (simp add: offEdge_def stopPolling_def Let_def)

lemma drained_cong:
  "ihw s' = ihw s \<Longrightarrow> i_request (inp s') = i_request (inp s) \<Longrightarrow> drained lib s' = drained lib s"
  by (simp add: drained_def)

lemma drained_events_lib:
  "drained events_lib button_watched
     = [edge_event Rising 1, edge_event Falling 2, edge_event Rising 3]"
  by (simp add: drained_def events_lib_def exclusive_lib_def button_watched_def button_def
      onEdge_def input_checkClosed_def startPolling_def readEventFromBuffer_def edge_event_def
      GPIOD_EDGE_EVENT_TYPE_RISING_EDGE_def Let_def upt_rec)

lemma button_watched_eq:
  "button_watched = button\<lparr>inp := (inp button)\<lparr>edgeCallbacks := [1, 2], pollInterval := True\<rparr>\<rparr>"
  by (simp add: button_watched_def button_def onEdge_def input_checkClosed_def
      startPolling_def Let_def)

text \<open>
  One run of the poll on an open input, with callbacks that leave the handle alone and
  with more steps allowed than callbacks are registered: the run ends; it has called, for
  every drained event in turn, every registered callback in the order of registration,
  whether or not callbacks throw; each throw is one line on the error console and nothing
  else. While callbacks are registered the handle is unchanged by the run, so the next run
  dispatches again. A callback registered n times has received every drained event n
  times, in event order. After an \<^verbatim>\<open>offEdge\<close> between two runs, the removed callback receives
  one delivery less per event and every other callback receives what it would have.
\<close>

lemma quiet_dispatch:
  assumes quiet: "\<And>c ev. fst (does c ev) = []"
    and live: "\<not> i_closed (inp s)" and fuel: "length (edgeCallbacks (inp s)) < fuel"
  shows "\<exists>s' s''. poll fuel lib does s = Some s'
     \<and> delivered s'
       = delivered s @ concat (map (\<lambda>ev. map (\<lambda>c. (c, ev)) (edgeCallbacks (inp s))) (drained lib s))
     \<and> console_errors s'
       = console_errors s
         @ concat (map (\<lambda>ev. map (\<lambda>c. (c, ev))
                               (filter (\<lambda>c. snd (does c ev)) (edgeCallbacks (inp s))))
                    (drained lib s))
     \<and> (edgeCallbacks (inp s) \<noteq> [] \<longrightarrow> inp s' = inp s)
     \<and> received c (delivered s')
       = received c (delivered s)
         @ concat (map (replicate (count_list (edgeCallbacks (inp s)) c)) (drained lib s))
     \<and> poll fuel lib does (snd (offEdge cb s)) = Some s''
     \<and> received c (delivered s'')
       = received c (delivered s)
         @ concat (map (replicate (count_list (edgeCallbacks (inp s)) c - (if c = cb then 1 else 0)))
                    (drained lib s))"
proof -
  let ?t = "snd (offEdge cb s)"
  from poll_quiet [of does s fuel lib, OF quiet live fuel]
  obtain s' where s': "poll fuel lib does s = Some s'"
    "delivered s'
       = delivered s @ concat (map (\<lambda>ev. map (\<lambda>c. (c, ev)) (edgeCallbacks (inp s))) (drained lib s))"
    "console_errors s'
       = console_errors s
         @ concat (map (\<lambda>ev. map (\<lambda>c. (c, ev))
                               (filter (\<lambda>c. snd (does c ev)) (edgeCallbacks (inp s))))
                    (drained lib s))"
    "edgeCallbacks (inp s) \<noteq> [] \<longrightarrow> inp s' = inp s"
    by blast
  have d: "received c (delivered s')
       = received c (delivered s)
         @ concat (map (replicate (count_list (edgeCallbacks (inp s)) c)) (drained lib s))"
    by (simp add: s'(2) received_append received_events)
  have live': "\<not> i_closed (inp ?t)" using live by (simp add: offEdge_effect)
  have fuel': "length (edgeCallbacks (inp ?t)) < fuel"
    using fuel by (auto simp add: offEdge_effect length_remove1)
  have same: "drained lib ?t = drained lib s"
    by (rule drained_cong) (simp_all add: offEdge_effect)
  from poll_quiet [of does ?t fuel lib, OF quiet live' fuel']
  obtain s'' where s'': "poll fuel lib does ?t = Some s''"
    "delivered s''
       = delivered ?t @ concat (map (\<lambda>ev. map (\<lambda>c. (c, ev)) (edgeCallbacks (inp ?t))) (drained lib ?t))"
    by blast
  have f: "received c (delivered s'')
       = received c (delivered s)
         @ concat (map (replicate (count_list (edgeCallbacks (inp s)) c - (if c = cb then 1 else 0)))
                    (drained lib s))"
    by (simp add: s''(2) same received_append received_events count_list_remove1 offEdge_effect)
  from s' d s''(1) f show ?thesis by blast
qed

lemma quiet_dispatch_example:
  "map_option delivered (poll 5 events_lib first_throws button_watched)
      = Some [(1, edge_event Rising 1), (2, edge_event Rising 1),
              (1, edge_event Falling 2), (2, edge_event Falling 2),
              (1, edge_event Rising 3), (2, edge_event Rising 3)]
   \<and> map_option console_errors (poll 5 events_lib first_throws button_watched)
      = Some [(1, edge_event Rising 1), (1, edge_event Falling 2), (1, edge_event Rising 3)]
   \<and> map_option inp (poll 5 events_lib first_throws button_watched) = Some (inp button_watched)
   \<and> map_option (\<lambda>s. received 1 (delivered s))
        (poll 5 events_lib first_throws (snd (offEdge 1 button_watched))) = Some []
   \<and> map_option (\<lambda>s. received 2 (delivered s))
        (poll 5 events_lib first_throws (snd (offEdge 1 button_watched)))
      = Some [edge_event Rising 1, edge_event Falling 2, edge_event Rising 3]"
proof -
  have quiet: "\<And>c ev. fst (first_throws c ev) = []"
    by (simp add: first_throws_def)
  have w: "\<not> i_closed (inp button_watched)" "length (edgeCallbacks (inp button_watched)) < 5"
    "edgeCallbacks (inp button_watched) = [1, 2]"
    "delivered button_watched = []" "console_errors button_watched = []"
    by (simp_all add: button_watched_eq button_def)
  from quiet_dispatch [of first_throws button_watched 5 events_lib 1 1, OF quiet w(1,2)]
    quiet_dispatch [of first_throws button_watched 5 events_lib 2 1, OF quiet w(1,2)]
  show ?thesis
    by (auto simp add: w drained_events_lib first_throws_def received_def)
qed

text \<open>
  C10. The claim is about every registered callback, and fails on the code for a callback
  that removes itself while it runs. Callbacks 1 and 2 are registered in this order on an
  open input, three events are drained, and callback 1 calls \<^verbatim>\<open>offEdge\<close> on itself at
  its first call. The loop over the callbacks walks the array that \<^verbatim>\<open>offEdge\<close> splices: after
  the call of callback 1 at index 0 the array is [2] and the index is 1, so the loop of the
  first event ends there. Callback 2, registered all along and never removed, is not called
  with the first event: it receives the second and the third only. Nothing is printed,
  and the run ends.
\<close>

theorem edge_dispatch_self_removal:
  "\<not> i_closed (inp button_watched)
   \<and> edgeCallbacks (inp button_watched) = [1, 2]
   \<and> drained events_lib button_watched
      = [edge_event Rising 1, edge_event Falling 2, edge_event Rising 3]
   \<and> map_option delivered (poll 5 events_lib one_shot button_watched)
      = Some [(1, edge_event Rising 1), (2, edge_event Falling 2), (2, edge_event Rising 3)]
   \<and> map_option (\<lambda>s. received 2 (delivered s)) (poll 5 events_lib one_shot button_watched)
      = Some [edge_event Falling 2, edge_event Rising 3]
   \<and> map_option (\<lambda>s. received 2 (delivered s)) (poll 5 events_lib one_shot button_watched)
      \<noteq> Some [edge_event Rising 1, edge_event Falling 2, edge_event Rising 3]
   \<and> map_option console_errors (poll 5 events_lib one_shot button_watched) = Some []
   \<and> map_option (\<lambda>s. edgeCallbacks (inp s)) (poll 5 events_lib one_shot button_watched) = Some [2]"
proof -
  have w: "\<not> i_closed (inp button_watched)" "edgeCallbacks (inp button_watched) = [1, 2]"
    by (simp_all add: button_watched_eq button_def)
  have wait: "gpiod_line_request_wait_edge_events events_lib (ihw button_watched)
      (i_request (inp button_watched)) 0 > 0"
    by (simp add: events_lib_def exclusive_lib_def)
  have run: "poll 5 events_lib one_shot button_watched =
      Some (button\<lparr>inp := (inp button)\<lparr>edgeCallbacks := [2], pollInterval := True\<rparr>,
                   ihw := [WaitEdgeEvents 2 0, ReadEdgeEvents 2 16],
                   delivered := [(1, edge_event Rising 1), (2, edge_event Falling 2),
                                 (2, edge_event Rising 3)]\<rparr>)"
    using w wait
    by (simp add: poll_open drained_events_lib)
      (simp add: button_watched_eq button_def numeral_eq_Suc invoke_def one_shot_def offEdge_def
        stopPolling_def Let_def)
  show ?thesis
    using w by (simp add: run drained_events_lib received_def edge_event_def button_def)
qed

section \<open>Acquiring a GPIO line\<close>

lemma request_line_allocates:
  assumes "allocates lib"
  shows "request_line lib pin h =
     (Inr (gpiod_chip_request_lines lib
             (h @ [LineConfigNew, LineConfigAddLineSettings (to_uint32 pin), RequestConfigNew,
                   RequestConfigSetConsumer ''bun-gpio''])),
      h @ [LineConfigNew, LineConfigAddLineSettings (to_uint32 pin), RequestConfigNew,
           RequestConfigSetConsumer ''bun-gpio'', ChipRequestLines] @ config_release_calls)"
  using assms by (simp add: request_line_def allocates_def config_release_calls_def Let_def)

lemma gpio_output_allocates:
  assumes "\<not> g_closed g" and "allocates lib"
  shows "gpio_output lib pin options g h =
     (case gpiod_chip_request_lines lib (h @ output_config_calls pin options) of
        None \<Rightarrow>
          (Inl (RequestOutputFailed pin), g,
           h @ output_config_calls pin options @ [ChipRequestLines] @ config_release_calls)
      | Some request \<Rightarrow>
          (Inr \<lparr>o_request = request, o_pin = pin,
                o_state = (case initialValue options of None \<Rightarrow> False | Some v \<Rightarrow> v),
                o_closed = False\<rparr>,
           g\<lparr>outputs := outputs g @
                [\<lparr>o_request = request, o_pin = pin,
                  o_state = (case initialValue options of None \<Rightarrow> False | Some v \<Rightarrow> v),
                  o_closed = False\<rparr>]\<rparr>,
           h @ output_config_calls pin options @ [ChipRequestLines] @ config_release_calls))"
proof -
  have s: "gpiod_line_settings_new lib h" using assms(2) by (simp add: allocates_def)
  show ?thesis
    using assms(1) s
    by (simp add: gpio_output_def gpio_checkClosed_def request_line_allocates [OF assms(2)]
        output_config_calls_def Let_def split: option.splits)
qed

lemma gpio_input_allocates:
  assumes "\<not> g_closed g" and "allocates lib" and "debounce_ok options"
  shows "gpio_input lib pin options g h =
     (case gpiod_chip_request_lines lib (h @ input_config_calls pin options) of
        None \<Rightarrow>
          (Inl (RequestInputFailed pin), g,
           h @ input_config_calls pin options @ [ChipRequestLines] @ config_release_calls)
      | Some request \<Rightarrow>
          (Inr (fst (new_GPIOInput lib request pin
                       (case edge options of None \<Rightarrow> EdgeNone | Some v \<Rightarrow> v)
                       (h @ input_config_calls pin options @ [ChipRequestLines] @ config_release_calls))),
           g\<lparr>inputs := inputs g @
                [fst (new_GPIOInput lib request pin
                       (case edge options of None \<Rightarrow> EdgeNone | Some v \<Rightarrow> v)
                       (h @ input_config_calls pin options @ [ChipRequestLines] @ config_release_calls))]\<rparr>,
           snd (new_GPIOInput lib request pin
                       (case edge options of None \<Rightarrow> EdgeNone | Some v \<Rightarrow> v)
                       (h @ input_config_calls pin options @ [ChipRequestLines] @ config_release_calls))))"
proof -
  have s: "gpiod_line_settings_new lib h" using assms(2) by (simp add: allocates_def)
  show ?thesis
    using assms(1) s assms(3)
    by (auto simp: gpio_input_def gpio_checkClosed_def request_line_allocates [OF assms(2)]
        input_config_calls_def debounce_ok_def Let_def split: option.splits prod.splits)
qed

lemma gpio_output_ignores_leases:
  "fst (gpio_output lib pin options (g\<lparr>outputs := outs, inputs := ins\<rparr>) h)
     = fst (gpio_output lib pin options g h)
   \<and> snd (snd (gpio_output lib pin options (g\<lparr>outputs := outs, inputs := ins\<rparr>) h))
     = snd (snd (gpio_output lib pin options g h))"
  by (simp add: gpio_output_def gpio_checkClosed_def Let_def split: prod.splits sum.splits option.splits)

lemma gpio_input_ignores_leases:
  "fst (gpio_input lib pin options (g\<lparr>outputs := outs, inputs := ins\<rparr>) h)
     = fst (gpio_input lib pin options g h)
   \<and> snd (snd (gpio_input lib pin options (g\<lparr>outputs := outs, inputs := ins\<rparr>) h))
     = snd (snd (gpio_input lib pin options g h))"
  by (simp add: gpio_input_def gpio_checkClosed_def Let_def split: prod.splits sum.splits option.splits)

lemma allocates_exclusive: "allocates exclusive_lib" "allocates granting_lib"
  by (simp_all add: allocates_def exclusive_lib_def granting_lib_def)

lemma kernel_after_lease:
  "kernel_state (lease_history @ output_config_calls 17 default_output) = (17, [(1, 17)], 2)"
  "kernel_state (output_config_calls 17 default_output) = (17, [], 1)"
  "kernel_state (lease_history @ [RequestRelease 1] @ output_config_calls 17 default_output)
     = (17, [], 2)"
  "kernel_state (lease_history @ input_config_calls 17 default_input) = (17, [(1, 17)], 2)"
  by (simp_all add: kernel_state_def lease_history_def output_config_calls_def
      input_config_calls_def config_release_calls_def default_output_def default_input_def
      to_uint32_def)

text \<open>
  C2, as the code has it. \<^verbatim>\<open>GPIO.output\<close> and \<^verbatim>\<open>GPIO.input\<close> keep no table of leased
  offsets. On an open controller, with the three configuration objects allocated (and a
  debounce period that converts), every acquisition sends one line request to the kernel
  and succeeds exactly when the kernel returns a request; otherwise it fails with the
  request-failed error of its direction, after the kernel has been asked. Neither the
  outcome nor the calls made depend on the handles the controller already tracks. So a
  second acquisition of a held offset fails if and only if the kernel refuses it, and an
  acquisition after a release succeeds if and only if the kernel grants it.
\<close>

theorem gpio_acquisition:
  "\<not> g_closed g \<Longrightarrow> allocates lib \<Longrightarrow> debounce_ok in_options \<Longrightarrow>
   fst (gpio_output lib pin options g h)
     = (case gpiod_chip_request_lines lib (h @ output_config_calls pin options) of
          None \<Rightarrow> Inl (RequestOutputFailed pin)
        | Some request \<Rightarrow>
            Inr \<lparr>o_request = request, o_pin = pin,
                  o_state = (case initialValue options of None \<Rightarrow> False | Some v \<Rightarrow> v),
                  o_closed = False\<rparr>)
   \<and> snd (snd (gpio_output lib pin options g h))
     = h @ output_config_calls pin options @ [ChipRequestLines] @ config_release_calls
   \<and> fst (gpio_input lib pin in_options g h)
     = (case gpiod_chip_request_lines lib (h @ input_config_calls pin in_options) of
          None \<Rightarrow> Inl (RequestInputFailed pin)
        | Some request \<Rightarrow>
            Inr (fst (new_GPIOInput lib request pin
                        (case edge in_options of None \<Rightarrow> EdgeNone | Some v \<Rightarrow> v)
                        (h @ input_config_calls pin in_options @ [ChipRequestLines]
                           @ config_release_calls))))
   \<and> take (length h + length (input_config_calls pin in_options) + 4)
        (snd (snd (gpio_input lib pin in_options g h)))
     = h @ input_config_calls pin in_options @ [ChipRequestLines] @ config_release_calls
   \<and> fst (gpio_output lib pin options (g\<lparr>outputs := outs, inputs := ins\<rparr>) h)
     = fst (gpio_output lib pin options g h)
   \<and> snd (snd (gpio_output lib pin options (g\<lparr>outputs := outs, inputs := ins\<rparr>) h))
     = snd (snd (gpio_output lib pin options g h))
   \<and> fst (gpio_input lib pin in_options (g\<lparr>outputs := outs, inputs := ins\<rparr>) h)
     = fst (gpio_input lib pin in_options g h)
   \<and> snd (snd (gpio_input lib pin in_options (g\<lparr>outputs := outs, inputs := ins\<rparr>) h))
     = snd (snd (gpio_input lib pin in_options g h))"
proof -
  assume live: "\<not> g_closed g" and alloc: "allocates lib" and deb: "debounce_ok in_options"
  note out_eq = gpio_output_allocates [OF live alloc, of pin options h]
  note in_eq = gpio_input_allocates [OF live alloc deb, of pin h]
  have a: "fst (gpio_output lib pin options g h)
     = (case gpiod_chip_request_lines lib (h @ output_config_calls pin options) of
          None \<Rightarrow> Inl (RequestOutputFailed pin)
        | Some request \<Rightarrow>
            Inr \<lparr>o_request = request, o_pin = pin,
                  o_state = (case initialValue options of None \<Rightarrow> False | Some v \<Rightarrow> v),
                  o_closed = False\<rparr>)"
    by (simp add: out_eq split: option.splits)
  have b: "snd (snd (gpio_output lib pin options g h))
     = h @ output_config_calls pin options @ [ChipRequestLines] @ config_release_calls"
    by (simp add: out_eq split: option.splits)
  have c: "fst (gpio_input lib pin in_options g h)
     = (case gpiod_chip_request_lines lib (h @ input_config_calls pin in_options) of
          None \<Rightarrow> Inl (RequestInputFailed pin)
        | Some request \<Rightarrow>
            Inr (fst (new_GPIOInput lib request pin
                        (case edge in_options of None \<Rightarrow> EdgeNone | Some v \<Rightarrow> v)
                        (h @ input_config_calls pin in_options @ [ChipRequestLines]
                           @ config_release_calls))))"
    by (simp add: in_eq split: option.splits)
  have d: "take (length h + length (input_config_calls pin in_options) + 4)
        (snd (snd (gpio_input lib pin in_options g h)))
     = h @ input_config_calls pin in_options @ [ChipRequestLines] @ config_release_calls"
    by (simp add: in_eq new_GPIOInput_def config_release_calls_def Let_def split: option.splits)
  have e: "fst (gpio_output lib pin options (g\<lparr>outputs := outs, inputs := ins\<rparr>) h)
     = fst (gpio_output lib pin options g h)
   \<and> snd (snd (gpio_output lib pin options (g\<lparr>outputs := outs, inputs := ins\<rparr>) h))
     = snd (snd (gpio_output lib pin options g h))"
    by (rule gpio_output_ignores_leases)
  have f: "fst (gpio_input lib pin in_options (g\<lparr>outputs := outs, inputs := ins\<rparr>) h)
     = fst (gpio_input lib pin in_options g h)
   \<and> snd (snd (gpio_input lib pin in_options (g\<lparr>outputs := outs, inputs := ins\<rparr>) h))
     = snd (snd (gpio_input lib pin in_options g h))"
    by (rule gpio_input_ignores_leases)
  from a b c d e f show ?thesis by blast
qed

theorem gpio_acquisition_witness:
  "\<not> g_closed gpio0 \<and> \<not> g_closed gpio_leased \<and> allocates exclusive_lib
   \<and> debounce_ok default_input
   \<and> fst (gpio_output exclusive_lib 17 default_output gpio0 []) = Inr led
   \<and> snd (snd (gpio_output exclusive_lib 17 default_output gpio0 [])) = lease_history
   \<and> fst (gpio_output exclusive_lib 17 default_output gpio_leased lease_history)
      = Inl (RequestOutputFailed 17)
   \<and> snd (snd (gpio_output exclusive_lib 17 default_output gpio_leased lease_history))
      = lease_history @ lease_history
   \<and> fst (gpio_input exclusive_lib 17 default_input gpio_leased lease_history)
      = Inl (RequestInputFailed 17)
   \<and> fst (gpio_output exclusive_lib 17 default_output gpio_leased
             (snd (output_close led lease_history)))
      = Inr (led\<lparr>o_request := 2\<rparr>)"
proof -
  have pre: "\<not> g_closed gpio0" "\<not> g_closed gpio_leased" "debounce_ok default_input"
    by (simp_all add: gpio0_def gpio_leased_def debounce_ok_def default_input_def)
  have released: "snd (output_close led lease_history) = lease_history @ [RequestRelease 1]"
    by (simp add: output_close_def led_def)
  note first = gpio_acquisition [OF pre(1) allocates_exclusive(1) pre(3),
      where pin = 17 and options = default_output and h = "[]"]
  note second = gpio_acquisition [OF pre(2) allocates_exclusive(1) pre(3),
      where pin = 17 and options = default_output and h = lease_history]
  note third = gpio_acquisition [OF pre(2) allocates_exclusive(1) pre(3),
      where pin = 17 and options = default_output and h = "lease_history @ [RequestRelease 1]"]
  have a: "fst (gpio_output exclusive_lib 17 default_output gpio0 []) = Inr led"
    unfolding first [THEN conjunct1]
    using kernel_after_lease(2) by (simp add: exclusive_lib_def led_def default_output_def)
  have b: "snd (snd (gpio_output exclusive_lib 17 default_output gpio0 [])) = lease_history"
    unfolding first [THEN conjunct2, THEN conjunct1] by (simp add: lease_history_def)
  have c: "fst (gpio_output exclusive_lib 17 default_output gpio_leased lease_history)
      = Inl (RequestOutputFailed 17)"
    unfolding second [THEN conjunct1]
    using kernel_after_lease(1) by (simp add: exclusive_lib_def)
  have d: "snd (snd (gpio_output exclusive_lib 17 default_output gpio_leased lease_history))
      = lease_history @ lease_history"
    unfolding second [THEN conjunct2, THEN conjunct1] by (simp add: lease_history_def)
  have e: "fst (gpio_input exclusive_lib 17 default_input gpio_leased lease_history)
      = Inl (RequestInputFailed 17)"
    unfolding second [THEN conjunct2, THEN conjunct2, THEN conjunct1]
    using kernel_after_lease(4) by (simp add: exclusive_lib_def)
  have f: "fst (gpio_output exclusive_lib 17 default_output gpio_leased
             (snd (output_close led lease_history))) = Inr (led\<lparr>o_request := 2\<rparr>)"
    unfolding released third [THEN conjunct1]
    using kernel_after_lease(3) by (simp add: exclusive_lib_def led_def default_output_def)
  from pre allocates_exclusive(1) a b c d e f show ?thesis by blast
qed

text \<open>
  C2 as stated fails: acquiring pin 17 a second time, without a release, is refused only by
  the kernel, with the request-failed error and after the line request has been made; a
  library that grants the second request makes the second acquisition succeed.
\<close>

theorem gpio_double_acquire_counterexample:
  "gpio_output exclusive_lib 17 default_output gpio_leased lease_history
     = (Inl (RequestOutputFailed 17), gpio_leased, lease_history @ lease_history)
   \<and> ChipRequestLines
       \<in> set (drop (length lease_history)
                (snd (snd (gpio_output exclusive_lib 17 default_output gpio_leased lease_history))))
   \<and> fst (gpio_output granting_lib 17 default_output gpio_leased lease_history)
     = Inr (led\<lparr>o_request := 21\<rparr>)"
proof -
  have live: "\<not> g_closed gpio_leased" by (simp add: gpio_leased_def gpio0_def)
  have a: "gpio_output exclusive_lib 17 default_output gpio_leased lease_history
     = (Inl (RequestOutputFailed 17), gpio_leased, lease_history @ lease_history)"
    unfolding gpio_output_allocates [OF live allocates_exclusive(1)]
    using kernel_after_lease(1) by (simp add: exclusive_lib_def lease_history_def)
  have b: "fst (gpio_output granting_lib 17 default_output gpio_leased lease_history)
     = Inr (led\<lparr>o_request := 21\<rparr>)"
    unfolding gpio_output_allocates [OF live allocates_exclusive(2)]
    by (simp add: granting_lib_def exclusive_lib_def lease_history_def output_config_calls_def
        config_release_calls_def led_def default_output_def)
  have c: "ChipRequestLines \<in> set lease_history"
    by (simp add: lease_history_def)
  from a b c show ?thesis by simp
qed

end
